theory Spec2Isabelle
  imports Main "HOL-Library.AList"
begin

section \<open>The video-call client: data model\<close>

text \<open>
  The model follows the \<open>VideoCall\<close> component (the signalling and peer-connection
  client). React state and refs are fields of one record \<open>client\<close>; every handler
  is a function from the client state to the client state. What the browser answers
  (media requests, session descriptions, track replacement) is not decided by the
  component, so it is a parameter of type \<open>browser\<close>.

  A handler runs to its end before the next one starts. The render-only copy of the
  local stream (\<open>localStream\<close>), the video element and the console are left out.

  \<open>toast\<close> is the default export of \<open>react-hot-toast\<close>. It has \<open>success\<close> and
  \<open>error\<close>, which are recorded by their level; it has no \<open>info\<close> and no
  \<open>warning\<close>, so \<open>toast.info(...)\<close> and \<open>toast.warning(...)\<close> throw a
  \<open>TypeError\<close> where they stand.
\<close>

datatype track_kind = Audio | Video

record track =
  track_id :: nat
  kind :: track_kind

type_synonym media_stream = "track list"

text \<open>An \<open>RTCRtpSender\<close> is its track, \<open>None\<close> after \<open>removeTrack\<close>.\<close>

type_synonym sender = "track option"

type_synonym sdp = string
type_synonym candidate = string

text \<open>An \<open>RTCPeerConnection\<close>, as far as the component uses it.\<close>

record peer_conn =
  senders :: "sender list"
  localDescription :: "sdp option"
  remoteDescription :: "sdp option"
  iceCandidates :: "candidate list"

definition new_RTCPeerConnection :: peer_conn where
  "new_RTCPeerConnection =
     \<lparr>senders = [], localDescription = None, remoteDescription = None, iceCandidates = []\<rparr>"

record participant =
  user_id :: string
  user_name :: string

datatype ready_state = CONNECTING | OPEN | CLOSING | CLOSED

text \<open>Messages received from the signalling server (\<open>message.type\<close> and its fields).\<close>

datatype message =
    Room_info "participant list option"
  | User_joined participant
  | User_left participant
  | Offer string "string option" sdp
  | Answer string "string option" sdp
  | Ice_candidate string "string option" candidate
  | User_audio_toggled string bool
  | User_video_toggled string bool
  | Unknown_type string

text \<open>Messages the client sends; the last argument of the first three is \<open>to\<close>.\<close>

datatype out_message =
    Send_offer sdp string
  | Send_answer sdp string
  | Send_ice_candidate candidate string
  | Toggle_audio bool
  | Toggle_video bool

datatype toast = Toast_success | Toast_error

datatype media_error =
    NotAllowedError | PermissionDeniedError | NotFoundError | DevicesNotFoundError
  | NotReadableError | TrackStartError | OverconstrainedError | OtherError

text \<open>The constraint objects the component passes to \<open>getUserMedia\<close>.\<close>

datatype constraints =
    Audio_processing
  | Audio_optimal
  | Audio_plain
  | Video_hd
  | Audio_and_video

datatype device_kind = Audioinput | Audiooutput | Videoinput

text \<open>
  The browser: the \<open>n\<close>-th media request with given constraints resolves to a stream
  or rejects with an error name; device enumeration may be missing (\<open>None\<close>), may
  reject (\<open>Some None\<close>) or lists the device kinds; the peer-connection calls, keyed
  by the peer they concern, succeed or reject; \<open>reuses_sender b p i t\<close> says that
  the engine puts track \<open>t\<close> on the freed sender at position \<open>i\<close> of the connection
  to \<open>p\<close> (its kind fits and it was never used to send) instead of making a new
  sender; the room lookup of the backend answers with a room id or fails; a socket
  under construction opens, errors or stays connecting until the ten-second timeout.
\<close>

datatype api_result = Room_id string | Http_error nat | No_response

datatype ws_outcome = Ws_opens | Ws_errors | Ws_times_out

record browser =
  getUserMedia :: "nat \<Rightarrow> constraints \<Rightarrow> media_error + media_stream"
  enumerateDevices :: "device_kind list option option"
  createOffer :: "string \<Rightarrow> sdp option"
  createAnswer :: "string \<Rightarrow> sdp option"
  setLocalDescription_ok :: "string \<Rightarrow> bool"
  setRemoteDescription_ok :: "string \<Rightarrow> bool"
  addIceCandidate_ok :: "string \<Rightarrow> bool"
  replaceTrack_ok :: "string \<Rightarrow> track \<Rightarrow> bool"
  reuses_sender :: "string \<Rightarrow> nat \<Rightarrow> track \<Rightarrow> bool"
  api_room_info :: api_result
  ws_connect :: ws_outcome

text \<open>
  \<open>peerConnection.addTrack\<close>: the track goes on the first freed sender the engine
  reuses, or else on a new sender at the end.
\<close>

definition addTrack :: "browser \<Rightarrow> string \<Rightarrow> track \<Rightarrow> peer_conn \<Rightarrow> peer_conn" where
  "addTrack b peerId t pc =
     (case find (\<lambda>i. senders pc ! i = None \<and> reuses_sender b peerId i t)
             [0..<length (senders pc)] of
        Some i \<Rightarrow> pc\<lparr>senders := (senders pc)[i := Some t]\<rparr>
      | None \<Rightarrow> pc\<lparr>senders := senders pc @ [Some t]\<rparr>)"

text \<open>The timers the component sets, with their delay in milliseconds.\<close>

datatype timer = Reconnect_after nat | Connect_timeout_after nat | Retry_after nat

text \<open>
  The client state. \<open>userId\<close> is \<open>String(user?.id)\<close>. The fields from \<open>sent\<close> on
  record what the component did to the outside: messages handed to an open socket,
  toasts, connections closed, tracks stopped, media requests with their outcome,
  sockets constructed (by room id), timers set, and whether \<open>onClose\<close> was called.
\<close>

record client =
  userId :: string
  roomId :: "string option"
  isConnected :: bool
  remoteStreams :: "(string \<times> media_stream) list"
  audioEnabled :: bool
  videoEnabled :: bool
  participants :: "participant list"
  micPermissionDenied :: bool
  cameraPermissionDenied :: bool
  isRequestingPermissions :: bool
  micDeviceAvailable :: "bool option"
  wsRef :: "ready_state option"
  peersRef :: "(string \<times> peer_conn) list"
  localStreamRef :: "media_stream option"
  reconnectTimeoutRef :: "nat option"
  sent :: "out_message list"
  toasts :: "toast list"
  closedConnections :: "(string \<times> peer_conn) list"
  stoppedTracks :: "track list"
  mediaRequests :: "(constraints \<times> (media_error + media_stream)) list"
  sockets :: "string list"
  timers :: "timer list"
  closeRequested :: bool

text \<open>
  A handler either returns or throws; the state it reached stays in both cases.
\<close>

datatype 'a outcome = Returns 'a | Throws 'a

fun state_of :: "'a outcome \<Rightarrow> 'a" where
  "state_of (Returns s) = s"
| "state_of (Throws s) = s"

fun and_then :: "'a outcome \<Rightarrow> ('a \<Rightarrow> 'a outcome) \<Rightarrow> 'a outcome" where
  "and_then (Returns s) f = f s"
| "and_then (Throws s) f = Throws s"

text \<open>\<open>toast.success\<close> and \<open>toast.error\<close> show a toast.\<close>

definition toast_add :: "toast \<Rightarrow> client \<Rightarrow> client" where
  "toast_add t s = s\<lparr>toasts := toasts s @ [t]\<rparr>"

text \<open>\<open>toast.info\<close> and \<open>toast.warning\<close> are not functions: the call throws.\<close>

definition toast_info :: "client \<Rightarrow> client outcome" where
  "toast_info s = Throws s"

definition toast_warning :: "client \<Rightarrow> client outcome" where
  "toast_warning s = Throws s"

section \<open>Signalling\<close>

text \<open>
  \<open>wsRef.current?.send(m)\<close>: nothing without a socket; an open socket takes the
  message; a connecting socket throws; a closing or closed socket drops it.
\<close>

definition ws_send :: "out_message \<Rightarrow> client \<Rightarrow> client outcome" where
  "ws_send m s =
     (case wsRef s of
        None \<Rightarrow> Returns s
      | Some OPEN \<Rightarrow> Returns (s\<lparr>sent := sent s @ [m]\<rparr>)
      | Some CONNECTING \<Rightarrow> Throws s
      | Some _ \<Rightarrow> Returns s)"

definition has :: "(string \<times> 'v) list \<Rightarrow> string \<Rightarrow> bool" where
  "has m k = (map_of m k \<noteq> None)"

definition set_peer :: "string \<Rightarrow> peer_conn \<Rightarrow> client \<Rightarrow> client" where
  "set_peer peerId pc s = s\<lparr>peersRef := AList.update peerId pc (peersRef s)\<rparr>"

definition createPeerConnection :: "browser \<Rightarrow> string \<Rightarrow> bool \<Rightarrow> client \<Rightarrow> client" where
  "createPeerConnection b peerId isInitiator s =
     (if has (peersRef s) peerId then s
      else
        let pc = (case localStreamRef s of
                    None \<Rightarrow> new_RTCPeerConnection
                  | Some ts \<Rightarrow> fold (addTrack b peerId) ts new_RTCPeerConnection);
            s1 = set_peer peerId pc s
        in if isInitiator then
             (case createOffer b peerId of
                None \<Rightarrow> s1
              | Some offer \<Rightarrow>
                  if setLocalDescription_ok b peerId then
                    state_of (ws_send (Send_offer offer peerId)
                      (set_peer peerId (pc\<lparr>localDescription := Some offer\<rparr>) s1))
                  else s1)
           else s1)"

definition closePeerConnection :: "string \<Rightarrow> client \<Rightarrow> client" where
  "closePeerConnection peerId s =
     (let s1 = (case map_of (peersRef s) peerId of
                  None \<Rightarrow> s
                | Some pc \<Rightarrow>
                    s\<lparr>closedConnections := closedConnections s @ [(peerId, pc)],
                      peersRef := AList.delete peerId (peersRef s)\<rparr>)
      in s1\<lparr>remoteStreams := AList.delete peerId (remoteStreams s1)\<rparr>)"

definition handleOffer :: "browser \<Rightarrow> string \<Rightarrow> sdp \<Rightarrow> client \<Rightarrow> client outcome" where
  "handleOffer b from offer s =
     (let s1 = createPeerConnection b from False s
      in case map_of (peersRef s1) from of
           None \<Rightarrow> Returns s1
         | Some pc \<Rightarrow>
             if \<not> setRemoteDescription_ok b from then Throws s1
             else
               let pc1 = pc\<lparr>remoteDescription := Some offer\<rparr>;
                   s2 = set_peer from pc1 s1
               in (case createAnswer b from of
                     None \<Rightarrow> Throws s2
                   | Some answer \<Rightarrow>
                       if \<not> setLocalDescription_ok b from then Throws s2
                       else ws_send (Send_answer answer from)
                              (set_peer from (pc1\<lparr>localDescription := Some answer\<rparr>) s2)))"

definition handleAnswer :: "browser \<Rightarrow> string \<Rightarrow> sdp \<Rightarrow> client \<Rightarrow> client outcome" where
  "handleAnswer b from answer s =
     (case map_of (peersRef s) from of
        None \<Rightarrow> Returns s
      | Some pc \<Rightarrow>
          if setRemoteDescription_ok b from
          then Returns (set_peer from (pc\<lparr>remoteDescription := Some answer\<rparr>) s)
          else Throws s)"

definition handleIceCandidate :: "browser \<Rightarrow> string \<Rightarrow> candidate \<Rightarrow> client \<Rightarrow> client outcome" where
  "handleIceCandidate b from c s =
     (case map_of (peersRef s) from of
        None \<Rightarrow> Returns s
      | Some pc \<Rightarrow>
          if addIceCandidate_ok b from
          then Returns (set_peer from (pc\<lparr>iceCandidates := iceCandidates pc @ [c]\<rparr>) s)
          else Throws s)"

text \<open>The loop of the \<open>room_info\<close> case over the listed participants.\<close>

fun connect_existing :: "browser \<Rightarrow> participant list \<Rightarrow> client \<Rightarrow> client" where
  "connect_existing b [] s = s"
| "connect_existing b (p # ps) s =
     connect_existing b ps
       (if user_id p \<noteq> userId s then createPeerConnection b (user_id p) True s else s)"

fun handleWebSocketMessage :: "browser \<Rightarrow> message \<Rightarrow> client \<Rightarrow> client outcome" where
  "handleWebSocketMessage b (Room_info None) s = Throws (s\<lparr>participants := []\<rparr>)"
| "handleWebSocketMessage b (Room_info (Some ps)) s =
     Returns (connect_existing b ps (s\<lparr>participants := ps\<rparr>))"
| "handleWebSocketMessage b (User_joined u) s =
     (let s1 = s\<lparr>participants := participants s @ [u]\<rparr>;
          s2 = (if user_id u \<noteq> userId s1 then createPeerConnection b (user_id u) True s1 else s1)
      in Returns (toast_add Toast_success s2))"
| "handleWebSocketMessage b (User_left u) s =
     (let s1 = s\<lparr>participants := filter (\<lambda>p. user_id p \<noteq> user_id u) (participants s)\<rparr>
      in toast_info (closePeerConnection (user_id u) s1))"
| "handleWebSocketMessage b (Offer from to offer) s = handleOffer b from offer s"
| "handleWebSocketMessage b (Answer from to answer) s =
     (if to = Some (userId s) then handleAnswer b from answer s else Returns s)"
| "handleWebSocketMessage b (Ice_candidate from to c) s = handleIceCandidate b from c s"
| "handleWebSocketMessage b (User_audio_toggled u e) s = toast_info s"
| "handleWebSocketMessage b (User_video_toggled u e) s = toast_info s"
| "handleWebSocketMessage b (Unknown_type t) s = Returns s"

text \<open>\<open>ws.onmessage\<close> catches whatever the handler throws.\<close>

definition onmessage :: "browser \<Rightarrow> message \<Rightarrow> client \<Rightarrow> client" where
  "onmessage b m s = state_of (handleWebSocketMessage b m s)"

text \<open>The callbacks a peer connection was given in \<open>createPeerConnection\<close>.\<close>

datatype connection_state =
  St_new | St_connecting | St_connected | St_disconnected | St_failed | St_closed

definition onconnectionstatechange :: "string \<Rightarrow> connection_state \<Rightarrow> client \<Rightarrow> client" where
  "onconnectionstatechange peerId st s =
     (if st = St_failed \<or> st = St_disconnected then closePeerConnection peerId s else s)"

definition ontrack :: "string \<Rightarrow> media_stream \<Rightarrow> client \<Rightarrow> client" where
  "ontrack peerId remoteStream s =
     s\<lparr>remoteStreams := AList.update peerId remoteStream (remoteStreams s)\<rparr>"

definition onicecandidate :: "string \<Rightarrow> candidate option \<Rightarrow> client \<Rightarrow> client" where
  "onicecandidate peerId c s =
     (case c of
        None \<Rightarrow> s
      | Some cand \<Rightarrow>
          if wsRef s = Some OPEN then s\<lparr>sent := sent s @ [Send_ice_candidate cand peerId]\<rparr>
          else s)"

section \<open>The signalling channel and its reconnection\<close>

text \<open>
  One socket is followed: the one in \<open>wsRef\<close>. The browser sets its ready state
  (open before \<open>onopen\<close>, closed before \<open>onerror\<close> and \<open>onclose\<close>); the handlers
  do the rest. \<open>reconnectTimeoutRef\<close> holds the delay of the timer that is still to
  fire, \<open>None\<close> when there is none or it was cleared.
\<close>

definition connectWebSocket :: "string \<Rightarrow> client \<Rightarrow> client" where
  "connectWebSocket rid s =
     s\<lparr>wsRef := Some CONNECTING,
       sockets := sockets s @ [rid],
       timers := timers s @ [Connect_timeout_after 10000]\<rparr>"

definition scheduleReconnect :: "string \<Rightarrow> client \<Rightarrow> client" where
  "scheduleReconnect rid s =
     s\<lparr>reconnectTimeoutRef := Some 3000,
       timers := timers s @ [Reconnect_after 3000]\<rparr>"

definition browser_sets :: "ready_state \<Rightarrow> client \<Rightarrow> client" where
  "browser_sets st s = s\<lparr>wsRef := map_option (\<lambda>_. st) (wsRef s)\<rparr>"

definition ws_onopen :: "client \<Rightarrow> client" where
  "ws_onopen s = (browser_sets OPEN s)\<lparr>isConnected := True\<rparr>"

definition ws_onerror :: "string \<Rightarrow> client \<Rightarrow> client" where
  "ws_onerror rid s = scheduleReconnect rid ((browser_sets CLOSED s)\<lparr>isConnected := False\<rparr>)"

definition ws_onclose :: "nat \<Rightarrow> string \<Rightarrow> client \<Rightarrow> client" where
  "ws_onclose code rid s =
     (let s1 = (browser_sets CLOSED s)\<lparr>isConnected := False\<rparr>
      in if code \<noteq> 1000 \<and> wsRef s1 \<noteq> None then scheduleReconnect rid s1 else s1)"

text \<open>The callback of the timer set by \<open>scheduleReconnect\<close>.\<close>

definition reconnect_timer_fires :: "string \<Rightarrow> client \<Rightarrow> client" where
  "reconnect_timer_fires rid s =
     (case reconnectTimeoutRef s of
        None \<Rightarrow> s
      | Some d \<Rightarrow>
          let s1 = s\<lparr>reconnectTimeoutRef := None\<rparr>
          in if wsRef s1 = Some CLOSED then connectWebSocket rid s1 else s1)"

text \<open>The callback of the ten-second timer: \<open>ws.close()\<close> unless the socket is open.\<close>

definition connect_timeout_fires :: "client \<Rightarrow> client" where
  "connect_timeout_fires s =
     (case wsRef s of
        Some CONNECTING \<Rightarrow> s\<lparr>wsRef := Some CLOSING\<rparr>
      | _ \<Rightarrow> s)"

datatype channel_event =
    Ev_open
  | Ev_error
  | Ev_close nat
  | Ev_reconnect_timer
  | Ev_connect_timeout

fun channel_step :: "string \<Rightarrow> channel_event \<Rightarrow> client \<Rightarrow> client" where
  "channel_step rid Ev_open s = ws_onopen s"
| "channel_step rid Ev_error s = ws_onerror rid s"
| "channel_step rid (Ev_close code) s = ws_onclose code rid s"
| "channel_step rid Ev_reconnect_timer s = reconnect_timer_fires rid s"
| "channel_step rid Ev_connect_timeout s = connect_timeout_fires s"

fun channel_run :: "string \<Rightarrow> channel_event list \<Rightarrow> client \<Rightarrow> client" where
  "channel_run rid [] s = s"
| "channel_run rid (e # es) s = channel_run rid es (channel_step rid e s)"

text \<open>
  One failed attempt: the socket closes abnormally (code 1006), the reconnect timer
  fires and a new socket is constructed.
\<close>

definition failed_attempt :: "channel_event list" where
  "failed_attempt = [Ev_close 1006, Ev_reconnect_timer]"

fun failed_attempts :: "nat \<Rightarrow> channel_event list" where
  "failed_attempts 0 = []"
| "failed_attempts (Suc n) = failed_attempt @ failed_attempts n"

fun reconnect_delays :: "timer list \<Rightarrow> nat list" where
  "reconnect_delays [] = []"
| "reconnect_delays (Reconnect_after d # ts) = d # reconnect_delays ts"
| "reconnect_delays (_ # ts) = reconnect_delays ts"

definition cleanup :: "client \<Rightarrow> client" where
  "cleanup s =
     s\<lparr>wsRef := None,
       closedConnections := closedConnections s @ peersRef s,
       peersRef := [],
       stoppedTracks := stoppedTracks s @ (case localStreamRef s of None \<Rightarrow> [] | Some ts \<Rightarrow> ts),
       localStreamRef := None,
       reconnectTimeoutRef := None\<rparr>"

section \<open>Media acquisition\<close>

definition request_media ::
  "browser \<Rightarrow> constraints \<Rightarrow> client \<Rightarrow> (media_error + media_stream) \<times> client" where
  "request_media b c s =
     (let r = getUserMedia b (length (mediaRequests s)) c
      in (r, s\<lparr>mediaRequests := mediaRequests s @ [(c, r)]\<rparr>))"

definition getAudioTracks :: "media_stream \<Rightarrow> track list" where
  "getAudioTracks ts = filter (\<lambda>t. kind t = Audio) ts"

definition getVideoTracks :: "media_stream \<Rightarrow> track list" where
  "getVideoTracks ts = filter (\<lambda>t. kind t = Video) ts"

definition stream_addTrack :: "track \<Rightarrow> media_stream \<Rightarrow> media_stream" where
  "stream_addTrack t ts = (if t \<in> set ts then ts else ts @ [t])"

definition checkDeviceAvailability :: "browser \<Rightarrow> client \<Rightarrow> client" where
  "checkDeviceAvailability b s =
     (case enumerateDevices b of
        None \<Rightarrow> s\<lparr>micDeviceAvailable := None\<rparr>
      | Some None \<Rightarrow> s\<lparr>micDeviceAvailable := None\<rparr>
      | Some (Some devices) \<Rightarrow>
          if length (filter (\<lambda>d. d = Audioinput) devices) > 0
          then s\<lparr>micDeviceAvailable := Some True\<rparr>
          else s\<lparr>micDeviceAvailable := None\<rparr>)"

text \<open>
  \<open>startLocalStream\<close>: the microphone request, the camera request, then the two
  streams are combined. Each \<open>catch\<close> block ends in a toast; where that toast is
  \<open>toast.info\<close> the block throws and the function ends there.
\<close>

definition startLocalStream :: "browser \<Rightarrow> client \<Rightarrow> client outcome" where
  "startLocalStream b s =
     (let s0 = s\<lparr>isRequestingPermissions := True\<rparr>;
          (audioStream, s1) = request_media b Audio_processing s0
      in and_then
           (case audioStream of
              Inr a \<Rightarrow> Returns (s1\<lparr>micPermissionDenied := False\<rparr>)
            | Inl e \<Rightarrow> toast_info (s1\<lparr>micPermissionDenied := True\<rparr>))
           (\<lambda>s2.
              let (videoStream, s3) = request_media b Video_hd s2
              in and_then
                   (case videoStream of
                      Inr v \<Rightarrow> Returns (s3\<lparr>cameraPermissionDenied := False\<rparr>)
                    | Inl e \<Rightarrow>
                        (let s' = s3\<lparr>cameraPermissionDenied := True, videoEnabled := False\<rparr>
                         in if e = NotAllowedError then Returns (toast_add Toast_error s')
                            else toast_info s'))
                   (\<lambda>s4.
                      and_then
                        (case (audioStream, videoStream) of
                           (Inl ea, Inl ev) \<Rightarrow>
                             toast_info
                               (s4\<lparr>localStreamRef := None, audioEnabled := False,
                                   videoEnabled := False\<rparr>)
                         | (Inl ea, Inr v) \<Rightarrow>
                             Returns
                               (s4\<lparr>localStreamRef :=
                                      Some (fold stream_addTrack (getVideoTracks v) []),
                                   audioEnabled := False\<rparr>)
                         | (Inr a, Inl ev) \<Rightarrow>
                             Returns
                               (s4\<lparr>localStreamRef :=
                                      Some (fold stream_addTrack (getAudioTracks a) []),
                                   videoEnabled := False\<rparr>)
                         | (Inr a, Inr v) \<Rightarrow>
                             Returns
                               (s4\<lparr>localStreamRef :=
                                      Some (fold stream_addTrack (getVideoTracks v)
                                              (fold stream_addTrack (getAudioTracks a) []))\<rparr>))
                        (\<lambda>s5. Returns (s5\<lparr>isRequestingPermissions := False\<rparr>)))))"

text \<open>\<open>if (roomId) connectWebSocket(roomId)\<close>: the empty string counts as absent.\<close>

definition truthy :: "string option \<Rightarrow> bool" where
  "truthy r = (case r of None \<Rightarrow> False | Some x \<Rightarrow> x \<noteq> [])"

definition connect_if_room :: "string option \<Rightarrow> client \<Rightarrow> client" where
  "connect_if_room r s =
     (case r of
        None \<Rightarrow> s
      | Some rid \<Rightarrow> if truthy r then connectWebSocket rid s else s)"

text \<open>
  \<open>initializeCall\<close>, with the socket event that settles the awaited connection
  folded in. When \<open>startLocalStream\<close> throws, the \<open>catch\<close> around its call
  takes the permission overlay down and the call goes on. Where the room lookup
  failed with another status than 404 or 403, \<open>toast.warning\<close> throws before the
  socket is tried; \<open>roomId\<close> there is the state variable as the call found it.
\<close>

definition initializeCall :: "browser \<Rightarrow> client \<Rightarrow> client outcome" where
  "initializeCall b s =
     (case api_room_info b of
        Room_id rid \<Rightarrow>
          let s1 = s\<lparr>roomId := Some rid\<rparr>;
              s2 = (case startLocalStream b s1 of
                      Returns s' \<Rightarrow> s'
                    | Throws s' \<Rightarrow> s'\<lparr>isRequestingPermissions := False\<rparr>);
              s3 = connectWebSocket rid s2
          in (case ws_connect b of
                Ws_opens \<Rightarrow> Returns (ws_onopen s3)
              | Ws_errors \<Rightarrow>
                  (let s4 = toast_add Toast_error (ws_onerror rid s3)
                   in Returns (s4\<lparr>timers := timers s4 @ [Retry_after 3000]\<rparr>))
              | Ws_times_out \<Rightarrow>
                  (let s4 = toast_add Toast_error (connect_timeout_fires s3)
                   in Returns (s4\<lparr>timers := timers s4 @ [Retry_after 3000]\<rparr>)))
      | Http_error status \<Rightarrow>
          if status = 404 \<or> status = 403
          then Returns ((toast_add Toast_error s)\<lparr>closeRequested := True\<rparr>)
          else and_then (toast_warning s) (\<lambda>s1. Returns (connect_if_room (roomId s) s1))
      | No_response \<Rightarrow>
          and_then (toast_warning s) (\<lambda>s1. Returns (connect_if_room (roomId s) s1)))"

section \<open>Attaching local tracks to the peer connections\<close>

fun first_index :: "('a \<Rightarrow> bool) \<Rightarrow> 'a list \<Rightarrow> nat option" where
  "first_index P [] = None"
| "first_index P (x # xs) =
     (if P x then Some 0 else map_option Suc (first_index P xs))"

text \<open>\<open>getSenders().find((s) => s.track && s.track.kind === k)\<close>, by position.\<close>

definition find_sender_of_kind :: "track_kind \<Rightarrow> peer_conn \<Rightarrow> nat option" where
  "find_sender_of_kind k pc =
     first_index (\<lambda>sd. case sd of None \<Rightarrow> False | Some t \<Rightarrow> kind t = k) (senders pc)"

text \<open>\<open>getSenders().find((s) => s.track === track)\<close> and \<open>removeTrack\<close> on it.\<close>

definition removeTrack_of :: "track \<Rightarrow> peer_conn \<Rightarrow> peer_conn" where
  "removeTrack_of t pc =
     (case first_index (\<lambda>sd. sd = Some t) (senders pc) of
        None \<Rightarrow> pc
      | Some i \<Rightarrow> pc\<lparr>senders := (senders pc)[i := None]\<rparr>)"

text \<open>
  The attachment step. What follows a rejected \<open>replaceTrack\<close> differs between the
  callers: some only log it, \<open>enableMicrophone\<close> adds the track as a new sender.
\<close>

datatype on_rejection = Log_only | AddTrack_instead

definition attach_track ::
  "browser \<Rightarrow> on_rejection \<Rightarrow> string \<Rightarrow> track_kind \<Rightarrow> track \<Rightarrow> peer_conn \<Rightarrow> peer_conn" where
  "attach_track b rej peerId k t pc =
     (case find_sender_of_kind k pc of
        Some i \<Rightarrow>
          if replaceTrack_ok b peerId t then pc\<lparr>senders := (senders pc)[i := Some t]\<rparr>
          else (case rej of Log_only \<Rightarrow> pc | AddTrack_instead \<Rightarrow> addTrack b peerId t pc)
      | None \<Rightarrow> addTrack b peerId t pc)"

definition update_peer :: "string \<Rightarrow> (peer_conn \<Rightarrow> peer_conn) \<Rightarrow> client \<Rightarrow> client" where
  "update_peer peerId f s =
     (case map_of (peersRef s) peerId of
        None \<Rightarrow> s
      | Some pc \<Rightarrow> set_peer peerId (f pc) s)"

text \<open>\<open>peersRef.current.forEach\<close>, in the order of the map.\<close>

definition forEach_peer :: "(string \<Rightarrow> client \<Rightarrow> client) \<Rightarrow> client \<Rightarrow> client" where
  "forEach_peer f s = fold f (map fst (peersRef s)) s"

text \<open>
  Renegotiation: \<open>createOffer\<close>, \<open>setLocalDescription\<close>, then the offer is sent; some
  callers send only when the socket is open, the others call \<open>wsRef.current?.send\<close>.
  A rejection anywhere ends the chain.
\<close>

definition renegotiate :: "browser \<Rightarrow> bool \<Rightarrow> string \<Rightarrow> client \<Rightarrow> client" where
  "renegotiate b only_if_open peerId s =
     (case map_of (peersRef s) peerId of
        None \<Rightarrow> s
      | Some pc \<Rightarrow>
          (case createOffer b peerId of
             None \<Rightarrow> s
           | Some offer \<Rightarrow>
               if \<not> setLocalDescription_ok b peerId then s
               else
                 let s1 = set_peer peerId (pc\<lparr>localDescription := Some offer\<rparr>) s
                 in if only_if_open
                    then (if wsRef s1 = Some OPEN
                          then s1\<lparr>sent := sent s1 @ [Send_offer offer peerId]\<rparr> else s1)
                    else state_of (ws_send (Send_offer offer peerId) s1)))"

text \<open>Stopping tracks, and taking them off every peer connection.\<close>

definition stop_tracks :: "track list \<Rightarrow> client \<Rightarrow> client" where
  "stop_tracks ts s = s\<lparr>stoppedTracks := stoppedTracks s @ ts\<rparr>"

definition remove_from_peers :: "track list \<Rightarrow> client \<Rightarrow> client" where
  "remove_from_peers ts s =
     fold (\<lambda>t. forEach_peer (\<lambda>peerId. update_peer peerId (removeTrack_of t))) ts s"

text \<open>
  \<open>retryPermissions\<close>: the old tracks are stopped and taken off the peer
  connections, \<open>startLocalStream\<close> is awaited (when it throws, so does this
  function), then each track of the new stream is attached to each peer connection;
  a track that needed \<open>addTrack\<close> is followed by a renegotiation.
\<close>

definition attach_or_renegotiate :: "browser \<Rightarrow> string \<Rightarrow> track \<Rightarrow> client \<Rightarrow> client" where
  "attach_or_renegotiate b peerId t s =
     (case map_of (peersRef s) peerId of
        None \<Rightarrow> s
      | Some pc \<Rightarrow>
          let s1 = set_peer peerId (attach_track b Log_only peerId (kind t) t pc) s
          in if find_sender_of_kind (kind t) pc = None then renegotiate b False peerId s1
             else s1)"

definition retryPermissions :: "browser \<Rightarrow> client \<Rightarrow> client outcome" where
  "retryPermissions b s =
     (let s0 = s\<lparr>isRequestingPermissions := True\<rparr>;
          s1 = (case localStreamRef s0 of
                  None \<Rightarrow> s0
                | Some ls \<Rightarrow> remove_from_peers ls (stop_tracks ls s0));
          s2 = s1\<lparr>micPermissionDenied := False, cameraPermissionDenied := False\<rparr>
      in and_then (startLocalStream b s2)
           (\<lambda>s3.
              case localStreamRef s3 of
                None \<Rightarrow> Returns s3
              | Some ls \<Rightarrow>
                  if truthy (roomId s) \<and> length (peersRef s3) > 0
                  then Returns
                         (forEach_peer (\<lambda>peerId. fold (attach_or_renegotiate b peerId) ls) s3)
                  else Returns s3))"

text \<open>
  The audio tracks of a fresh stream replace the local audio: the old audio tracks are
  stopped (and, for some callers, taken off the peer connections), the new ones join
  the local stream; without a local stream the fresh stream becomes it.
\<close>

definition use_audio_tracks :: "bool \<Rightarrow> media_stream \<Rightarrow> track list \<Rightarrow> client \<Rightarrow> client" where
  "use_audio_tracks remove stream audioTracks s =
     (case localStreamRef s of
        None \<Rightarrow> s\<lparr>localStreamRef := Some stream\<rparr>
      | Some ls \<Rightarrow>
          let old = getAudioTracks ls;
              s1 = stop_tracks old s;
              s2 = (if remove then remove_from_peers old s1 else s1)
          in s2\<lparr>localStreamRef := Some (fold stream_addTrack audioTracks ls)\<rparr>)"

definition attach_audio ::
  "browser \<Rightarrow> on_rejection \<Rightarrow> track list \<Rightarrow> string \<Rightarrow> client \<Rightarrow> client" where
  "attach_audio b rej audioTracks peerId s =
     renegotiate b True peerId
       (update_peer peerId (\<lambda>pc. fold (attach_track b rej peerId Audio) audioTracks pc) s)"

text \<open>
  \<open>enableMicrophone\<close> returns a boolean; the result here is \<open>Some\<close> of it, and
  \<open>None\<close> when the call throws. First the \<open>catch\<close> block, by the name of the
  error caught: for \<open>OverconstrainedError\<close> it starts with \<open>toast.info\<close>.
\<close>

definition enableMicrophone_failed ::
  "browser \<Rightarrow> media_error \<Rightarrow> client \<Rightarrow> bool option \<times> client" where
  "enableMicrophone_failed b error s =
     (let s0 = s\<lparr>micPermissionDenied := True\<rparr>
      in if error = NotAllowedError \<or> error = PermissionDeniedError
         then (Some False, toast_add Toast_error s0)
         else if error = NotFoundError \<or> error = DevicesNotFoundError
         then (let (r, s1) = request_media b Audio_plain s0
               in case r of
                    Inr fallbackStream \<Rightarrow>
                      let fallbackTracks = getAudioTracks fallbackStream
                      in if length fallbackTracks > 0
                         then
                           let s2 = use_audio_tracks False fallbackStream fallbackTracks s1;
                               s3 = s2\<lparr>audioEnabled := True, micPermissionDenied := False,
                                       micDeviceAvailable := Some True\<rparr>;
                               s4 = forEach_peer (attach_audio b AddTrack_instead fallbackTracks) s3
                           in (Some True,
                               toast_add Toast_success (s4\<lparr>isRequestingPermissions := False\<rparr>))
                         else (Some False, s1)
                  | Inl fallbackError \<Rightarrow>
                      (Some False,
                       toast_add Toast_error (s1\<lparr>micDeviceAvailable := Some False\<rparr>)))
         else if error = NotReadableError \<or> error = TrackStartError
         then (Some False, toast_add Toast_error s0)
         else if error = OverconstrainedError
         then (case toast_info s0 of
                 Throws s' \<Rightarrow> (None, s')
               | Returns s' \<Rightarrow>
                   (let (r, s1) = request_media b Audio_plain s'
                    in case r of
                         Inr fallbackStream \<Rightarrow>
                           let fallbackTracks = getAudioTracks fallbackStream
                           in if length fallbackTracks > 0
                              then
                                let s2 = use_audio_tracks False fallbackStream fallbackTracks s1;
                                    s3 = s2\<lparr>audioEnabled := True, micPermissionDenied := False\<rparr>;
                                    s4 = forEach_peer (attach_audio b Log_only fallbackTracks) s3
                                in (Some True, toast_add Toast_success s4)
                              else (Some False, s1)
                       | Inl fallbackError \<Rightarrow> (Some False, toast_add Toast_error s1)))
         else (Some False, toast_add Toast_error s0))"

definition enableMicrophone :: "browser \<Rightarrow> client \<Rightarrow> bool option \<times> client" where
  "enableMicrophone b s =
     (let (r1, s1) = request_media b Audio_optimal s;
          (r, s2) = (case r1 of
                       Inr optimal \<Rightarrow> (r1, s1)
                     | Inl constraintError \<Rightarrow> request_media b Audio_plain s1)
      in case r of
           Inl fallbackError \<Rightarrow> enableMicrophone_failed b fallbackError s2
         | Inr audioStream \<Rightarrow>
             let audioTracks = getAudioTracks audioStream
             in if length audioTracks = 0 then enableMicrophone_failed b OtherError s2
                else
                  let s3 = use_audio_tracks True audioStream audioTracks s2;
                      s4 = s3\<lparr>audioEnabled := True, micPermissionDenied := False\<rparr>;
                      s5 = forEach_peer (attach_audio b AddTrack_instead audioTracks) s4
                  in (Some True,
                      toast_add Toast_success (s5\<lparr>isRequestingPermissions := False\<rparr>)))"

definition attach_video :: "browser \<Rightarrow> track list \<Rightarrow> string \<Rightarrow> client \<Rightarrow> client" where
  "attach_video b videoTracks peerId s =
     renegotiate b False peerId
       (update_peer peerId (\<lambda>pc. fold (attach_track b Log_only peerId Video) videoTracks pc) s)"

definition enableCamera :: "browser \<Rightarrow> client \<Rightarrow> bool \<times> client" where
  "enableCamera b s =
     (let (r, s1) = request_media b Video_hd s
      in case r of
           Inr videoStream \<Rightarrow>
             let s2 = (case localStreamRef s1 of
                         None \<Rightarrow> s1\<lparr>localStreamRef := Some videoStream\<rparr>
                       | Some ls \<Rightarrow>
                           (stop_tracks (getVideoTracks ls) s1)
                             \<lparr>localStreamRef :=
                                Some (fold stream_addTrack (getVideoTracks videoStream) ls)\<rparr>);
                 s3 = s2\<lparr>videoEnabled := True, cameraPermissionDenied := False\<rparr>;
                 s4 = forEach_peer (attach_video b (getVideoTracks videoStream)) s3
             in (True, toast_add Toast_success (s4\<lparr>isRequestingPermissions := False\<rparr>))
         | Inl error \<Rightarrow>
             (False, toast_add Toast_error (s1\<lparr>cameraPermissionDenied := True\<rparr>)))"

text \<open>\<open>refreshDeviceList\<close> starts with \<open>toast.info\<close>.\<close>

definition refreshDeviceList :: "browser \<Rightarrow> client \<Rightarrow> client outcome" where
  "refreshDeviceList b s =
     and_then (toast_info s)
       (\<lambda>s0.
          let (r, s1) = request_media b Audio_plain s0
          in case r of
               Inr testStream \<Rightarrow>
                 let audioTracks = getAudioTracks testStream
                 in if length audioTracks > 0
                    then
                      let s2 = use_audio_tracks True testStream audioTracks s1;
                          s3 = s2\<lparr>audioEnabled := True, micPermissionDenied := False,
                                  micDeviceAvailable := Some True\<rparr>;
                          s4 = forEach_peer (attach_audio b AddTrack_instead audioTracks) s3
                      in Returns (toast_add Toast_success (s4\<lparr>isRequestingPermissions := False\<rparr>))
                    else Returns
                           (toast_add Toast_error
                              ((stop_tracks testStream s1)\<lparr>micDeviceAvailable := Some False\<rparr>))
             | Inl error \<Rightarrow>
                 let s2 = checkDeviceAvailability b s1
                 in if error = NotAllowedError \<or> error = PermissionDeniedError
                    then Returns (toast_add Toast_error (s2\<lparr>micPermissionDenied := True\<rparr>))
                    else if error = NotFoundError \<or> error = DevicesNotFoundError
                    then Returns (toast_add Toast_error (s2\<lparr>micDeviceAvailable := Some False\<rparr>))
                    else Returns (toast_add Toast_error (s2\<lparr>micDeviceAvailable := None\<rparr>)))"

section \<open>Starting state, observations, an example browser\<close>

text \<open>The state the component starts in (its \<open>useState\<close> and \<open>useRef\<close> values).\<close>

definition initial_client :: "string \<Rightarrow> client" where
  "initial_client uid =
     \<lparr>userId = uid, roomId = None, isConnected = False, remoteStreams = [],
      audioEnabled = True, videoEnabled = True, participants = [],
      micPermissionDenied = False, cameraPermissionDenied = False,
      isRequestingPermissions = True, micDeviceAvailable = None,
      wsRef = None, peersRef = [], localStreamRef = None, reconnectTimeoutRef = None,
      sent = [], toasts = [], closedConnections = [], stoppedTracks = [],
      mediaRequests = [], sockets = [], timers = [], closeRequested = False\<rparr>"

text \<open>The same client once its socket is open.\<close>

definition connected_client :: "string \<Rightarrow> client" where
  "connected_client uid = (initial_client uid)\<lparr>wsRef := Some OPEN, isConnected := True\<rparr>"

text \<open>The number the header shows: \<open>participants.length + 1\<close>.\<close>

definition shown_count :: "client \<Rightarrow> nat" where
  "shown_count s = length (participants s) + 1"

fun is_offer_to :: "string \<Rightarrow> out_message \<Rightarrow> bool" where
  "is_offer_to p (Send_offer d q) = (q = p)"
| "is_offer_to p m = False"

fun is_offer :: "out_message \<Rightarrow> bool" where
  "is_offer (Send_offer d q) = True"
| "is_offer m = False"

text \<open>
  A browser in which every peer-connection call succeeds and no freed sender is
  reused, no media is granted, the room is \<open>r1\<close> and the socket opens.
\<close>

definition example_browser :: browser where
  "example_browser =
     \<lparr>getUserMedia = (\<lambda>n c. Inl NotAllowedError),
      enumerateDevices = Some (Some []),
      createOffer = (\<lambda>p. Some ''offer''),
      createAnswer = (\<lambda>p. Some ''answer''),
      setLocalDescription_ok = (\<lambda>p. True),
      setRemoteDescription_ok = (\<lambda>p. True),
      addIceCandidate_ok = (\<lambda>p. True),
      replaceTrack_ok = (\<lambda>p t. True),
      reuses_sender = (\<lambda>p i t. False),
      api_room_info = Room_id ''r1'',
      ws_connect = Ws_opens\<rparr>"

definition alice :: participant where
  "alice = \<lparr>user_id = ''1'', user_name = ''Alice''\<rparr>"

definition bob :: participant where
  "bob = \<lparr>user_id = ''2'', user_name = ''Bob''\<rparr>"

text \<open>Alice's client, in a call with Bob: he is listed and linked, his stream plays.\<close>

definition linked_client :: client where
  "linked_client =
     (set_peer ''2'' new_RTCPeerConnection (connected_client ''1''))
       \<lparr>participants := [bob], remoteStreams := [(''2'', [])]\<rparr>"

text \<open>Some tracks, and a browser that grants the camera and refuses the microphone.\<close>

definition mic1 :: track where
  "mic1 = \<lparr>track_id = 1, kind = Audio\<rparr>"

definition mic2 :: track where
  "mic2 = \<lparr>track_id = 2, kind = Audio\<rparr>"

definition cam :: track where
  "cam = \<lparr>track_id = 3, kind = Video\<rparr>"

definition camera_only_browser :: browser where
  "camera_only_browser =
     example_browser\<lparr>getUserMedia :=
       (\<lambda>n c. if c = Video_hd then Inr [cam] else Inl NotAllowedError)\<rparr>"

text \<open>
  Alice's client with her microphone on and a link to Bob that carries it. A browser
  that finds no microphone, and one that finds none twice, then finds one, and rejects
  every \<open>replaceTrack\<close>.
\<close>

definition talking_client :: client where
  "talking_client =
     (set_peer ''2'' (new_RTCPeerConnection\<lparr>senders := [Some mic1]\<rparr>) (connected_client ''1''))
       \<lparr>roomId := Some ''r1'', participants := [bob], localStreamRef := Some [mic1]\<rparr>"

definition no_microphone_browser :: browser where
  "no_microphone_browser = example_browser\<lparr>getUserMedia := (\<lambda>n c. Inl NotFoundError)\<rparr>"

definition late_microphone_browser :: browser where
  "late_microphone_browser =
     example_browser\<lparr>getUserMedia := (\<lambda>n c. if n < 2 then Inl NotFoundError else Inr [mic2]),
                     replaceTrack_ok := (\<lambda>p t. False)\<rparr>"

text \<open>
  A browser that grants the microphone and finds no camera, one that grants both, and
  one that grants both and whose engine reuses a freed first sender for an audio track.
\<close>

definition microphone_only_browser :: browser where
  "microphone_only_browser =
     example_browser\<lparr>getUserMedia :=
       (\<lambda>n c. if c = Video_hd then Inl NotFoundError else Inr [mic2])\<rparr>"

definition granting_browser :: browser where
  "granting_browser =
     example_browser\<lparr>getUserMedia := (\<lambda>n c. if c = Video_hd then Inr [cam] else Inr [mic2])\<rparr>"

definition reusing_browser :: browser where
  "reusing_browser =
     granting_browser\<lparr>reuses_sender := (\<lambda>p i t. i = 0 \<and> kind t = Audio)\<rparr>"

section \<open>Field lemmas of the signalling functions\<close>

lemma toast_throws [simp]:
  "state_of (toast_info s) = s"
  "state_of (toast_warning s) = s"
  "and_then (toast_info s) f = Throws s"
  "and_then (toast_warning s) f = Throws s"
  by (simp_all add: toast_info_def toast_warning_def)

lemma has_update [simp]: "has (AList.update k v al) q = (q = k \<or> has al q)"
  by (auto simp: has_def update_conv')

lemma has_delete [simp]: "has (AList.delete k al) q = (q \<noteq> k \<and> has al q)"
  by (auto simp: has_def delete_conv')

lemma set_peer_fields [simp]:
  "participants (set_peer p pc s) = participants s"
  "sent (set_peer p pc s) = sent s"
  "wsRef (set_peer p pc s) = wsRef s"
  "userId (set_peer p pc s) = userId s"
  "localStreamRef (set_peer p pc s) = localStreamRef s"
  "remoteStreams (set_peer p pc s) = remoteStreams s"
  "closedConnections (set_peer p pc s) = closedConnections s"
  "toasts (set_peer p pc s) = toasts s"
  "timers (set_peer p pc s) = timers s"
  "peersRef (set_peer p pc s) = AList.update p pc (peersRef s)"
  by (simp_all add: set_peer_def)

lemma ws_send_fields [simp]:
  "participants (state_of (ws_send m s)) = participants s"
  "wsRef (state_of (ws_send m s)) = wsRef s"
  "userId (state_of (ws_send m s)) = userId s"
  "localStreamRef (state_of (ws_send m s)) = localStreamRef s"
  "remoteStreams (state_of (ws_send m s)) = remoteStreams s"
  "closedConnections (state_of (ws_send m s)) = closedConnections s"
  "toasts (state_of (ws_send m s)) = toasts s"
  "timers (state_of (ws_send m s)) = timers s"
  "peersRef (state_of (ws_send m s)) = peersRef s"
  by (simp_all add: ws_send_def split: option.splits ready_state.splits)

lemma ws_send_sent:
  "sent (state_of (ws_send m s)) = (if wsRef s = Some OPEN then sent s @ [m] else sent s)"
  by (simp add: ws_send_def split: option.splits ready_state.splits)

lemma createPeerConnection_present: "has (peersRef s) p \<Longrightarrow> createPeerConnection b p i s = s"
  by (simp add: createPeerConnection_def)

lemma createPeerConnection_fields [simp]:
  "participants (createPeerConnection b p i s) = participants s"
  "wsRef (createPeerConnection b p i s) = wsRef s"
  "userId (createPeerConnection b p i s) = userId s"
  "localStreamRef (createPeerConnection b p i s) = localStreamRef s"
  "remoteStreams (createPeerConnection b p i s) = remoteStreams s"
  "closedConnections (createPeerConnection b p i s) = closedConnections s"
  "toasts (createPeerConnection b p i s) = toasts s"
  "timers (createPeerConnection b p i s) = timers s"
  by (simp_all add: createPeerConnection_def Let_def split: option.splits)

lemma createPeerConnection_has [simp]:
  "has (peersRef (createPeerConnection b p i s)) q = (q = p \<or> has (peersRef s) q)"
  by (auto simp: createPeerConnection_def Let_def split: option.splits)

lemma createPeerConnection_other:
  "q \<noteq> p \<Longrightarrow> map_of (peersRef (createPeerConnection b p i s)) q = map_of (peersRef s) q"
  by (simp add: createPeerConnection_def Let_def update_conv' split: option.splits)

lemma createPeerConnection_distinct:
  "distinct (map fst (peersRef s)) \<Longrightarrow> distinct (map fst (peersRef (createPeerConnection b p i s)))"
  by (simp add: createPeerConnection_def Let_def distinct_update split: option.splits)

lemma createPeerConnection_responder_sent [simp]:
  "sent (createPeerConnection b p False s) = sent s"
  by (simp add: createPeerConnection_def Let_def split: option.splits)

lemma toast_add_fields [simp]:
  "participants (toast_add t s) = participants s"
  "sent (toast_add t s) = sent s"
  "wsRef (toast_add t s) = wsRef s"
  "peersRef (toast_add t s) = peersRef s"
  "remoteStreams (toast_add t s) = remoteStreams s"
  "closedConnections (toast_add t s) = closedConnections s"
  "timers (toast_add t s) = timers s"
  by (simp_all add: toast_add_def)

lemma example_browser_ok [simp]:
  "createOffer example_browser p = Some ''offer''"
  "createAnswer example_browser p = Some ''answer''"
  "setLocalDescription_ok example_browser p"
  "setRemoteDescription_ok example_browser p"
  "addIceCandidate_ok example_browser p"
  "replaceTrack_ok example_browser p t"
  by (simp_all add: example_browser_def)

lemma connected_facts:
  "wsRef (connected_client u) = Some OPEN"
  "userId (connected_client u) = u"
  "peersRef (connected_client u) = []"
  "sent (connected_client u) = []"
  "localStreamRef (connected_client u) = None"
  "participants (connected_client u) = []"
  by (simp_all add: connected_client_def initial_client_def)

lemma initial_facts:
  "mediaRequests (initial_client u) = []"
  "sockets (initial_client u) = []"
  "peersRef (initial_client u) = []"
  "localStreamRef (initial_client u) = None"
  "micDeviceAvailable (initial_client u) = None"
  by (simp_all add: initial_client_def)

lemma linked_facts:
  "has (peersRef linked_client) ''2''"
  "distinct (map fst (peersRef linked_client))"
  "user_id bob = ''2''"
  "bob \<in> set (participants linked_client)"
  "map_of (peersRef linked_client) ''2'' = Some new_RTCPeerConnection"
  "wsRef linked_client = Some OPEN"
  "userId linked_client = ''1''"
  by (simp_all add: linked_client_def connected_client_def initial_client_def bob_def has_def)

section \<open>Repeated discovery of a linked participant\<close>

lemma createPeerConnection_offers_other:
  "q \<noteq> p \<Longrightarrow> filter (is_offer_to p) (sent (createPeerConnection b q i s)) = filter (is_offer_to p) (sent s)"
  by (simp add: createPeerConnection_def Let_def ws_send_sent split: option.splits)

lemma connect_existing_keeps:
  "has (peersRef s) p \<Longrightarrow>
     map_of (peersRef (connect_existing b ps s)) p = map_of (peersRef s) p \<and>
     filter (is_offer_to p) (sent (connect_existing b ps s)) = filter (is_offer_to p) (sent s)"
proof (induction ps arbitrary: s)
  case Nil
  then show ?case by simp
next
  case (Cons q ps)
  let ?s1 = "if user_id q \<noteq> userId s then createPeerConnection b (user_id q) True s else s"
  have keep: "map_of (peersRef ?s1) p = map_of (peersRef s) p \<and>
      filter (is_offer_to p) (sent ?s1) = filter (is_offer_to p) (sent s)"
  proof (cases "user_id q = p")
    case True
    with Cons.prems show ?thesis by (simp add: createPeerConnection_present)
  next
    case False
    then show ?thesis
      by (simp add: createPeerConnection_other createPeerConnection_offers_other)
  qed
  have "has (peersRef ?s1) p" using Cons.prems by simp
  from Cons.IH [OF this] keep show ?case by simp
qed

lemma connect_existing_distinct:
  "distinct (map fst (peersRef s)) \<Longrightarrow> distinct (map fst (peersRef (connect_existing b ps s)))"
  by (induction ps arbitrary: s) (simp_all add: createPeerConnection_distinct)

lemma closePeerConnection_distinct:
  "distinct (map fst (peersRef s)) \<Longrightarrow> distinct (map fst (peersRef (closePeerConnection p s)))"
  by (simp add: closePeerConnection_def Let_def distinct_delete split: option.splits)

lemma handleOffer_distinct:
  "distinct (map fst (peersRef s)) \<Longrightarrow> distinct (map fst (peersRef (state_of (handleOffer b p d s))))"
  by (simp add: handleOffer_def Let_def distinct_update createPeerConnection_distinct
      split: option.splits)

lemma onmessage_distinct:
  assumes d: "distinct (map fst (peersRef s))"
  shows "distinct (map fst (peersRef (onmessage b m s)))"
proof (cases m)
  case (Room_info x)
  with d show ?thesis
    by (cases x) (simp_all add: onmessage_def connect_existing_distinct)
next
  case (User_joined u)
  with d show ?thesis by (simp add: onmessage_def Let_def createPeerConnection_distinct)
next
  case (User_left u)
  with d show ?thesis by (simp add: onmessage_def Let_def closePeerConnection_distinct)
next
  case (Offer p t d')
  with d show ?thesis by (simp add: onmessage_def handleOffer_distinct)
next
  case (Answer p t d')
  with d show ?thesis
    by (simp add: onmessage_def handleAnswer_def distinct_update split: option.splits)
next
  case (Ice_candidate p t c)
  with d show ?thesis
    by (simp add: onmessage_def handleIceCandidate_def distinct_update split: option.splits)
qed (use d in \<open>simp_all add: onmessage_def\<close>)

text \<open>
  C3. When participant \<open>p\<close> already has an entry in the peer map,
  \<open>createPeerConnection\<close> for \<open>p\<close> returns the state as it is, whatever the
  initiator flag. So a second \<open>user_joined\<close> for \<open>p\<close> changes neither the map nor
  what was sent, a \<open>room_info\<close> listing \<open>p\<close> leaves the entry of \<open>p\<close> and the
  offers addressed to \<open>p\<close> as they were, and no message makes the keys of the map
  repeat: one connection per participant.
\<close>

theorem duplicate_discovery_is_noop:
  assumes "has (peersRef s) p"
  shows "createPeerConnection b p isInitiator s = s
    \<and> (user_id u = p \<longrightarrow>
         peersRef (onmessage b (User_joined u) s) = peersRef s
         \<and> sent (onmessage b (User_joined u) s) = sent s)
    \<and> map_of (peersRef (onmessage b (Room_info (Some ps)) s)) p = map_of (peersRef s) p
    \<and> filter (is_offer_to p) (sent (onmessage b (Room_info (Some ps)) s))
        = filter (is_offer_to p) (sent s)
    \<and> (distinct (map fst (peersRef s)) \<longrightarrow> distinct (map fst (peersRef (onmessage b m s))))"
proof -
  have 1: "createPeerConnection b p isInitiator s = s"
    using assms by (rule createPeerConnection_present)
  have 2: "user_id u = p \<longrightarrow>
         peersRef (onmessage b (User_joined u) s) = peersRef s
         \<and> sent (onmessage b (User_joined u) s) = sent s"
    using assms by (simp add: onmessage_def Let_def createPeerConnection_present)
  have "has (peersRef (s\<lparr>participants := ps\<rparr>)) p" using assms by simp
  from connect_existing_keeps [OF this, of b ps]
  have 3: "map_of (peersRef (onmessage b (Room_info (Some ps)) s)) p = map_of (peersRef s) p
    \<and> filter (is_offer_to p) (sent (onmessage b (Room_info (Some ps)) s))
        = filter (is_offer_to p) (sent s)"
    by (simp add: onmessage_def)
  from 1 2 3 onmessage_distinct show ?thesis by blast
qed

theorem duplicate_discovery_is_noop_witness:
  "createPeerConnection example_browser ''2'' True linked_client = linked_client
   \<and> peersRef (onmessage example_browser (User_joined bob) linked_client) = peersRef linked_client
   \<and> sent (onmessage example_browser (User_joined bob) linked_client) = sent linked_client
   \<and> distinct (map fst (peersRef (onmessage example_browser (User_joined bob) linked_client)))"
  using duplicate_discovery_is_noop [OF linked_facts(1), of example_browser True bob "[bob]" "User_joined bob"]
    linked_facts(2,3)
  by simp

section \<open>The participants list on \<open>user_joined\<close>\<close>

text \<open>
  C10. Every \<open>user_joined\<close> message appends its user to the participants list,
  before and whatever the check on the peer map says; the count shown grows by one.
  For a user already listed and already linked the list still grows, while the peer
  map and the messages sent stay as they were.
\<close>

theorem user_joined_always_appends:
  "participants (onmessage b (User_joined u) s) = participants s @ [u]
   \<and> shown_count (onmessage b (User_joined u) s) = shown_count s + 1
   \<and> (u \<in> set (participants s) \<and> has (peersRef s) (user_id u) \<longrightarrow>
        peersRef (onmessage b (User_joined u) s) = peersRef s
        \<and> sent (onmessage b (User_joined u) s) = sent s)"
  by (simp add: onmessage_def Let_def shown_count_def createPeerConnection_present)

theorem user_joined_always_appends_witness:
  "participants (onmessage example_browser (User_joined bob) linked_client) = [bob, bob]
   \<and> shown_count (onmessage example_browser (User_joined bob) linked_client) = 3
   \<and> peersRef (onmessage example_browser (User_joined bob) linked_client) = peersRef linked_client"
proof -
  have p: "participants linked_client = [bob]" and c: "shown_count linked_client = 2"
    by (simp_all add: linked_client_def shown_count_def)
  have h: "bob \<in> set (participants linked_client) \<and> has (peersRef linked_client) (user_id bob)"
    using linked_facts by simp
  from user_joined_always_appends [of example_browser bob linked_client] h p c
  show ?thesis by simp
qed

section \<open>The \<open>to\<close> field of inbound messages\<close>

text \<open>
  C9. An answer is applied only when its \<open>to\<close> is the local user: otherwise the
  state is unchanged, and with the right \<open>to\<close> the remote description of the
  sender's connection is set. Offers and candidates go to \<open>handleOffer\<close> and
  \<open>handleIceCandidate\<close> with their \<open>from\<close> alone: whatever \<open>to\<close> says, the
  connection of \<open>from\<close> gets the offer as remote description, or the candidate.
\<close>

theorem answer_checks_to_offer_does_not:
  "(to \<noteq> Some (userId s) \<longrightarrow> onmessage b (Answer from to answer) s = s)
   \<and> (to = Some (userId s) \<and> map_of (peersRef s) from = Some pc \<and> setRemoteDescription_ok b from \<longrightarrow>
        map_of (peersRef (onmessage b (Answer from to answer) s)) from
          = Some (pc\<lparr>remoteDescription := Some answer\<rparr>))
   \<and> onmessage b (Offer from to offer) s = state_of (handleOffer b from offer s)
   \<and> onmessage b (Ice_candidate from to c) s = state_of (handleIceCandidate b from c s)
   \<and> (map_of (peersRef s) from = Some pc \<and> setRemoteDescription_ok b from \<longrightarrow>
        (\<exists>pc'. map_of (peersRef (onmessage b (Offer from to offer) s)) from = Some pc'
               \<and> remoteDescription pc' = Some offer))
   \<and> (map_of (peersRef s) from = Some pc \<and> addIceCandidate_ok b from \<longrightarrow>
        map_of (peersRef (onmessage b (Ice_candidate from to c) s)) from
          = Some (pc\<lparr>iceCandidates := iceCandidates pc @ [c]\<rparr>))"
proof -
  have offer: "\<exists>pc'. map_of (peersRef (state_of (handleOffer b from offer s))) from = Some pc'
               \<and> remoteDescription pc' = Some offer"
    if "map_of (peersRef s) from = Some pc" "setRemoteDescription_ok b from"
  proof -
    have "has (peersRef s) from" using that by (simp add: has_def)
    then have "createPeerConnection b from False s = s" by (rule createPeerConnection_present)
    with that show ?thesis
      by (simp add: handleOffer_def Let_def update_conv' split: option.splits)
  qed
  show ?thesis
    using offer
    by (simp add: onmessage_def handleAnswer_def handleIceCandidate_def update_conv')
qed

theorem answer_checks_to_offer_does_not_witness:
  "onmessage example_browser (Answer ''2'' (Some ''3'') ''sdp'') linked_client = linked_client
   \<and> map_of (peersRef (onmessage example_browser (Answer ''2'' (Some ''1'') ''sdp'') linked_client)) ''2''
       = Some (new_RTCPeerConnection\<lparr>remoteDescription := Some ''sdp''\<rparr>)
   \<and> (\<exists>pc'. map_of (peersRef (onmessage example_browser (Offer ''2'' (Some ''3'') ''sdp'') linked_client)) ''2'' = Some pc'
          \<and> remoteDescription pc' = Some ''sdp'')
   \<and> map_of (peersRef (onmessage example_browser (Ice_candidate ''2'' (Some ''3'') ''c'') linked_client)) ''2''
       = Some (new_RTCPeerConnection\<lparr>iceCandidates := iceCandidates new_RTCPeerConnection @ [''c'']\<rparr>)"
proof -
  have t3: "Some ''3'' \<noteq> Some (userId linked_client)"
    and t1: "Some ''1'' = Some (userId linked_client)"
    by (simp_all add: linked_facts)
  note m = linked_facts(5)
  note T3 = answer_checks_to_offer_does_not
         [of "Some ''3''" linked_client example_browser "''2''" "''sdp''" new_RTCPeerConnection "''sdp''" "''c''"]
  note T1 = answer_checks_to_offer_does_not
         [of "Some ''1''" linked_client example_browser "''2''" "''sdp''" new_RTCPeerConnection "''sdp''" "''c''"]
  have 1: "onmessage example_browser (Answer ''2'' (Some ''3'') ''sdp'') linked_client = linked_client"
    using T3 t3 by blast
  have 2: "map_of (peersRef (onmessage example_browser (Answer ''2'' (Some ''1'') ''sdp'') linked_client)) ''2''
       = Some (new_RTCPeerConnection\<lparr>remoteDescription := Some ''sdp''\<rparr>)"
    using T1 t1 m example_browser_ok(4) by blast
  have 3: "\<exists>pc'. map_of (peersRef (onmessage example_browser (Offer ''2'' (Some ''3'') ''sdp'') linked_client)) ''2'' = Some pc'
          \<and> remoteDescription pc' = Some ''sdp''"
    using T3 m example_browser_ok(4) by blast
  have 4: "map_of (peersRef (onmessage example_browser (Ice_candidate ''2'' (Some ''3'') ''c'') linked_client)) ''2''
       = Some (new_RTCPeerConnection\<lparr>iceCandidates := iceCandidates new_RTCPeerConnection @ [''c'']\<rparr>)"
    using T3 m example_browser_ok(5) by blast
  from 1 2 3 4 show ?thesis by blast
qed

section \<open>A failed transport\<close>

lemma closePeerConnection_linked:
  assumes "map_of (peersRef s) p = Some pc"
  shows "peersRef (closePeerConnection p s) = AList.delete p (peersRef s)"
    and "closedConnections (closePeerConnection p s) = closedConnections s @ [(p, pc)]"
    and "remoteStreams (closePeerConnection p s) = AList.delete p (remoteStreams s)"
    and "participants (closePeerConnection p s) = participants s"
    and "sent (closePeerConnection p s) = sent s"
    and "timers (closePeerConnection p s) = timers s"
  using assms by (simp_all add: closePeerConnection_def Let_def)

lemma closePeerConnection_participants [simp]:
  "participants (closePeerConnection p s) = participants s"
  by (simp add: closePeerConnection_def Let_def split: option.splits)

text \<open>
  C4. When the transport of peer \<open>p\<close> reports \<open>failed\<close> or \<open>disconnected\<close>, the
  link is torn down at once: the connection is closed and leaves the peer map, the
  remote stream of \<open>p\<close> is dropped. Nothing is retried (no message is sent, no
  timer set), the other links stay, and the participants list is as before: \<open>p\<close>
  leaves it only through \<open>user_left\<close>, after which no entry with that id remains.
\<close>

theorem failed_transport_closes_link_only:
  assumes "st = St_failed \<or> st = St_disconnected"
    and "map_of (peersRef s) p = Some pc"
  shows "\<not> has (peersRef (onconnectionstatechange p st s)) p
    \<and> closedConnections (onconnectionstatechange p st s) = closedConnections s @ [(p, pc)]
    \<and> \<not> has (remoteStreams (onconnectionstatechange p st s)) p
    \<and> participants (onconnectionstatechange p st s) = participants s
    \<and> sent (onconnectionstatechange p st s) = sent s
    \<and> timers (onconnectionstatechange p st s) = timers s
    \<and> (\<forall>q. q \<noteq> p \<longrightarrow>
          map_of (peersRef (onconnectionstatechange p st s)) q = map_of (peersRef s) q
          \<and> map_of (remoteStreams (onconnectionstatechange p st s)) q = map_of (remoteStreams s) q)
    \<and> (\<forall>x \<in> set (participants (onmessage b (User_left u) s)). user_id x \<noteq> user_id u)"
proof -
  have eq: "onconnectionstatechange p st s = closePeerConnection p s"
    using assms(1) by (auto simp: onconnectionstatechange_def)
  note c = closePeerConnection_linked [OF assms(2)]
  have 1: "\<not> has (peersRef (closePeerConnection p s)) p"
    and 2: "\<not> has (remoteStreams (closePeerConnection p s)) p"
    by (simp_all add: c)
  have 3: "\<forall>q. q \<noteq> p \<longrightarrow>
          map_of (peersRef (closePeerConnection p s)) q = map_of (peersRef s) q
          \<and> map_of (remoteStreams (closePeerConnection p s)) q = map_of (remoteStreams s) q"
    by (simp add: c delete_conv')
  have 4: "\<forall>x \<in> set (participants (onmessage b (User_left u) s)). user_id x \<noteq> user_id u"
    by (simp add: onmessage_def Let_def)
  from 1 2 3 4 c(2,4,5,6) show ?thesis unfolding eq by blast
qed

theorem failed_transport_closes_link_only_witness:
  "\<not> has (peersRef (onconnectionstatechange ''2'' St_failed linked_client)) ''2''
   \<and> closedConnections (onconnectionstatechange ''2'' St_failed linked_client) = [(''2'', new_RTCPeerConnection)]
   \<and> \<not> has (remoteStreams (onconnectionstatechange ''2'' St_failed linked_client)) ''2''
   \<and> participants (onconnectionstatechange ''2'' St_failed linked_client) = [bob]
   \<and> participants (onmessage example_browser (User_left bob) linked_client) = []"
proof -
  have c: "closedConnections linked_client = []" "participants linked_client = [bob]"
    by (simp_all add: linked_client_def connected_client_def initial_client_def)
  have l: "participants (onmessage example_browser (User_left bob) linked_client) = []"
    by (simp add: onmessage_def Let_def c closePeerConnection_def bob_def split: option.splits)
  have "St_failed = St_failed \<or> St_failed = St_disconnected" by simp
  from failed_transport_closes_link_only [OF this linked_facts(5), of example_browser bob] c l
  show ?thesis by simp
qed

section \<open>Answering an offer\<close>

lemma addTrack_appends:
  assumes "None \<notin> set (senders pc)"
  shows "addTrack b p t pc = pc\<lparr>senders := senders pc @ [Some t]\<rparr>"
proof -
  have "find (\<lambda>i. senders pc ! i = None \<and> reuses_sender b p i t) [0..<length (senders pc)] = None"
    using assms by (auto simp: find_None_iff dest: nth_mem)
  then show ?thesis by (simp add: addTrack_def)
qed

lemma senders_fold_addTrack:
  "None \<notin> set (senders pc) \<Longrightarrow>
     senders (fold (addTrack b p) ts pc) = senders pc @ map Some ts"
proof (induction ts arbitrary: pc)
  case Nil
  then show ?case by simp
next
  case (Cons t ts)
  have "None \<notin> set (senders (addTrack b p t pc))"
    using Cons.prems by (simp add: addTrack_appends)
  from Cons.IH [OF this] Cons.prems show ?case by (simp add: addTrack_appends)
qed

lemma createPeerConnection_responder_entry:
  "map_of (peersRef (createPeerConnection b p False s)) p
     = Some (case map_of (peersRef s) p of
               None \<Rightarrow> (case localStreamRef s of None \<Rightarrow> new_RTCPeerConnection
                        | Some ts \<Rightarrow> fold (addTrack b p) ts new_RTCPeerConnection)
             | Some pc0 \<Rightarrow> pc0)"
  by (auto simp: createPeerConnection_def has_def Let_def update_conv' split: option.splits)

text \<open>
  C8. On an offer from \<open>p\<close>, with the socket open and the browser accepting the
  descriptions, the client answers: the handler returns, the only message sent is an
  answer addressed to \<open>p\<close> (no offer of its own), the connection of \<open>p\<close> has the
  offer as remote and the answer as local description; it is the connection \<open>p\<close> had,
  or a new one carrying the local tracks when there was none. Other links are
  untouched.
\<close>

theorem offer_is_answered:
  assumes "wsRef s = Some OPEN"
    and "setRemoteDescription_ok b p"
    and "createAnswer b p = Some answer"
    and "setLocalDescription_ok b p"
  shows "handleWebSocketMessage b (Offer p to offer) s
           = Returns (onmessage b (Offer p to offer) s)
    \<and> sent (onmessage b (Offer p to offer) s) = sent s @ [Send_answer answer p]
    \<and> (\<exists>pc. map_of (peersRef (onmessage b (Offer p to offer) s)) p = Some pc
             \<and> remoteDescription pc = Some offer
             \<and> localDescription pc = Some answer
             \<and> (\<forall>pc0. map_of (peersRef s) p = Some pc0 \<longrightarrow> senders pc = senders pc0)
             \<and> (\<not> has (peersRef s) p \<longrightarrow>
                  senders pc = map Some (case localStreamRef s of None \<Rightarrow> [] | Some ts \<Rightarrow> ts)))
    \<and> (\<forall>q. q \<noteq> p \<longrightarrow> map_of (peersRef (onmessage b (Offer p to offer) s)) q = map_of (peersRef s) q)"
proof -
  let ?fresh = "case localStreamRef s of None \<Rightarrow> new_RTCPeerConnection
                | Some ts \<Rightarrow> fold (addTrack b p) ts new_RTCPeerConnection"
  let ?pc1 = "case map_of (peersRef s) p of None \<Rightarrow> ?fresh | Some pc0 \<Rightarrow> pc0"
  let ?s1 = "createPeerConnection b p False s"
  let ?pc2 = "?pc1\<lparr>remoteDescription := Some offer\<rparr>"
  let ?pc3 = "?pc2\<lparr>localDescription := Some answer\<rparr>"
  have entry: "map_of (peersRef ?s1) p = Some ?pc1"
    by (simp add: createPeerConnection_responder_entry)
  have run: "handleOffer b p offer s
      = Returns ((set_peer p ?pc3 (set_peer p ?pc2 ?s1))
                   \<lparr>sent := sent s @ [Send_answer answer p]\<rparr>)"
    using assms by (simp add: handleOffer_def Let_def entry ws_send_def)
  have fresh: "senders ?fresh = map Some (case localStreamRef s of None \<Rightarrow> [] | Some ts \<Rightarrow> ts)"
    by (simp add: senders_fold_addTrack new_RTCPeerConnection_def split: option.splits)
  have 1: "handleWebSocketMessage b (Offer p to offer) s
           = Returns (onmessage b (Offer p to offer) s)"
    by (simp add: onmessage_def run)
  have 2: "sent (onmessage b (Offer p to offer) s) = sent s @ [Send_answer answer p]"
    by (simp add: onmessage_def run)
  have 3: "map_of (peersRef (onmessage b (Offer p to offer) s)) p = Some ?pc3"
    by (simp add: onmessage_def run update_conv')
  have 4: "remoteDescription ?pc3 = Some offer \<and> localDescription ?pc3 = Some answer
       \<and> (\<forall>pc0. map_of (peersRef s) p = Some pc0 \<longrightarrow> senders ?pc3 = senders pc0)
       \<and> (\<not> has (peersRef s) p \<longrightarrow>
                  senders ?pc3 = map Some (case localStreamRef s of None \<Rightarrow> [] | Some ts \<Rightarrow> ts))"
    using fresh by (auto simp: has_def)
  have 5: "\<forall>q. q \<noteq> p \<longrightarrow>
      map_of (peersRef (onmessage b (Offer p to offer) s)) q = map_of (peersRef s) q"
    by (simp add: onmessage_def run update_conv' createPeerConnection_other)
  from 1 2 3 4 5 show ?thesis by blast
qed

theorem offer_is_answered_witness:
  "handleWebSocketMessage example_browser (Offer ''1'' (Some ''2'') ''sdp'') (connected_client ''2'')
     = Returns (onmessage example_browser (Offer ''1'' (Some ''2'') ''sdp'') (connected_client ''2''))
   \<and> sent (onmessage example_browser (Offer ''1'' (Some ''2'') ''sdp'') (connected_client ''2''))
       = [Send_answer ''answer'' ''1'']
   \<and> (\<exists>pc. map_of (peersRef (onmessage example_browser (Offer ''1'' (Some ''2'') ''sdp'') (connected_client ''2''))) ''1'' = Some pc
          \<and> remoteDescription pc = Some ''sdp'' \<and> localDescription pc = Some ''answer''
          \<and> senders pc = [])"
proof -
  have n: "\<not> has (peersRef (connected_client ''2'')) ''1''"
    by (simp add: connected_facts has_def)
  have w: "wsRef (connected_client ''2'') = Some OPEN" by (rule connected_facts)
  have r: "setRemoteDescription_ok example_browser ''1''"
    and a: "createAnswer example_browser ''1'' = Some ''answer''"
    and l: "setLocalDescription_ok example_browser ''1''"
    by simp_all
  from offer_is_answered [OF w r a l, where to = "Some ''2''" and offer = "''sdp''"] n
  show ?thesis by (simp add: connected_facts)
qed

section \<open>Who sends the first offer\<close>

text \<open>
  C1, as the specification states it, fails: the \<open>room_info\<close> case calls
  \<open>createPeerConnection\<close> with the initiator flag set, as the \<open>user_joined\<close> case
  does. Bob joins the room Alice is in: his client, handling the \<open>room_info\<close> that
  lists her, sends her an offer, and her client, handling \<open>user_joined\<close>, sends him
  one.
\<close>

theorem new_joiner_offers_too:
  "sent (onmessage example_browser (Room_info (Some [alice])) (connected_client ''2''))
     = [Send_offer ''offer'' ''1'']
   \<and> sent (onmessage example_browser (User_joined bob) (connected_client ''1''))
     = [Send_offer ''offer'' ''2'']"
  by (simp add: onmessage_def Let_def createPeerConnection_def connected_facts has_def
      alice_def bob_def ws_send_sent)

lemma createPeerConnection_initiates:
  assumes "wsRef s = Some OPEN" "createOffer b p = Some offer" "setLocalDescription_ok b p"
    "\<not> has (peersRef s) p"
  shows "sent (createPeerConnection b p True s) = sent s @ [Send_offer offer p]"
    and "\<exists>pc. map_of (peersRef (createPeerConnection b p True s)) p = Some pc
             \<and> localDescription pc = Some offer"
  using assms
  by (simp_all add: createPeerConnection_def Let_def ws_send_sent update_conv')

lemma connect_existing_initiates:
  assumes "createOffer b p = Some offer" "setLocalDescription_ok b p"
  shows "wsRef s = Some OPEN \<Longrightarrow> p \<noteq> userId s \<Longrightarrow> \<not> has (peersRef s) p \<Longrightarrow>
     p \<in> user_id ` set ps \<Longrightarrow>
     filter (is_offer_to p) (sent (connect_existing b ps s))
       = filter (is_offer_to p) (sent s) @ [Send_offer offer p]
     \<and> (\<exists>pc. map_of (peersRef (connect_existing b ps s)) p = Some pc
             \<and> localDescription pc = Some offer)"
proof (induction ps arbitrary: s)
  case Nil
  then show ?case by simp
next
  case (Cons q ps)
  show ?case
  proof (cases "user_id q = p")
    case True
    let ?s1 = "createPeerConnection b p True s"
    have h: "has (peersRef ?s1) p" by simp
    from createPeerConnection_initiates [OF Cons.prems(1) assms Cons.prems(3)]
      connect_existing_keeps [OF h, of b ps]
    show ?thesis using True Cons.prems(2) by simp
  next
    case False
    let ?s1 = "if user_id q \<noteq> userId s then createPeerConnection b (user_id q) True s else s"
    have 1: "wsRef ?s1 = Some OPEN" "p \<noteq> userId ?s1" "\<not> has (peersRef ?s1) p"
      using Cons.prems False by auto
    have 2: "p \<in> user_id ` set ps" using Cons.prems(4) False by auto
    have 3: "filter (is_offer_to p) (sent ?s1) = filter (is_offer_to p) (sent s)"
      using False by (simp add: createPeerConnection_offers_other)
    from Cons.IH [OF 1 2] 3 show ?thesis by simp
  qed
qed

text \<open>
  C1, amended. Whoever discovers a participant \<open>p\<close> it has no link to initiates, on
  both discovery paths. With the socket open and the browser producing the offer, a
  \<open>user_joined\<close> for \<open>p\<close> sends \<open>p\<close> an offer and leaves a connection for \<open>p\<close>
  with that offer as local description; a \<open>room_info\<close> that lists \<open>p\<close> adds exactly
  one offer addressed to \<open>p\<close> and leaves such a connection too. Only an offer that
  arrives from \<open>p\<close> is handled without sending an offer.
\<close>

theorem discovery_makes_initiator:
  assumes "wsRef s = Some OPEN"
    and "createOffer b p = Some offer"
    and "setLocalDescription_ok b p"
    and "p \<noteq> userId s"
    and "\<not> has (peersRef s) p"
    and "user_id u = p"
  shows "sent (onmessage b (User_joined u) s) = sent s @ [Send_offer offer p]
    \<and> (\<exists>pc. map_of (peersRef (onmessage b (User_joined u) s)) p = Some pc
            \<and> localDescription pc = Some offer)
    \<and> (u \<in> set ps \<longrightarrow>
          filter (is_offer_to p) (sent (onmessage b (Room_info (Some ps)) s))
            = filter (is_offer_to p) (sent s) @ [Send_offer offer p]
          \<and> (\<exists>pc. map_of (peersRef (onmessage b (Room_info (Some ps)) s)) p = Some pc
                  \<and> localDescription pc = Some offer))
    \<and> filter is_offer (sent (onmessage b (Offer p to d) s)) = filter is_offer (sent s)"
proof -
  let ?s1 = "s\<lparr>participants := participants s @ [u]\<rparr>"
  have pre: "wsRef ?s1 = Some OPEN" "\<not> has (peersRef ?s1) p" using assms by simp_all
  note c = createPeerConnection_initiates [OF pre(1) assms(2,3) pre(2)]
  have 1: "sent (onmessage b (User_joined u) s) = sent s @ [Send_offer offer p]"
    using c(1) assms(4,6) by (simp add: onmessage_def Let_def)
  have 2: "\<exists>pc. map_of (peersRef (onmessage b (User_joined u) s)) p = Some pc
            \<and> localDescription pc = Some offer"
    using c(2) assms(4,6) by (simp add: onmessage_def Let_def)
  have 3: "filter (is_offer_to p) (sent (onmessage b (Room_info (Some ps)) s))
            = filter (is_offer_to p) (sent s) @ [Send_offer offer p]
          \<and> (\<exists>pc. map_of (peersRef (onmessage b (Room_info (Some ps)) s)) p = Some pc
                  \<and> localDescription pc = Some offer)" if "u \<in> set ps"
  proof -
    let ?s2 = "s\<lparr>participants := ps\<rparr>"
    have "wsRef ?s2 = Some OPEN" "p \<noteq> userId ?s2" "\<not> has (peersRef ?s2) p" "p \<in> user_id ` set ps"
      using assms that by auto
    from connect_existing_initiates [OF assms(2,3) this] show ?thesis
      by (simp add: onmessage_def)
  qed
  have 4: "filter is_offer (sent (onmessage b (Offer p to d) s)) = filter is_offer (sent s)"
    by (simp add: onmessage_def handleOffer_def Let_def ws_send_sent split: option.splits)
  from 1 2 3 4 show ?thesis by blast
qed

theorem discovery_makes_initiator_witness:
  "sent (onmessage example_browser (User_joined alice) (connected_client ''2'')) = [Send_offer ''offer'' ''1'']
   \<and> filter (is_offer_to ''1'') (sent (onmessage example_browser (Room_info (Some [alice, bob])) (connected_client ''2'')))
      = [Send_offer ''offer'' ''1'']
   \<and> filter is_offer (sent (onmessage example_browser (Offer ''1'' None ''sdp'') (connected_client ''2''))) = []"
proof -
  have h: "''1'' \<noteq> userId (connected_client ''2'')" "\<not> has (peersRef (connected_client ''2'')) ''1''"
     "user_id alice = ''1''" "alice \<in> set [alice, bob]"
    by (simp_all add: connected_facts has_def alice_def)
  have w: "wsRef (connected_client ''2'') = Some OPEN" by (rule connected_facts)
  have c: "createOffer example_browser ''1'' = Some ''offer''"
    and l: "setLocalDescription_ok example_browser ''1''"
    by simp_all
  from discovery_makes_initiator [OF w c l h(1,2,3),
      where ps = "[alice, bob]" and to = None and d = "''sdp''"] h(4)
  show ?thesis by (simp add: connected_facts)
qed

section \<open>Reconnecting the signalling channel\<close>

lemma channel_run_append:
  "channel_run rid (xs @ ys) s = channel_run rid ys (channel_run rid xs s)"
  by (induction xs arbitrary: s) simp_all

lemma reconnect_delays_append:
  "reconnect_delays (xs @ ys) = reconnect_delays xs @ reconnect_delays ys"
  by (induction xs rule: reconnect_delays.induct) simp_all

lemma failed_attempt_effect:
  assumes "wsRef s \<noteq> None"
  shows "wsRef (channel_run rid failed_attempt s) = Some CONNECTING"
    and "sockets (channel_run rid failed_attempt s) = sockets s @ [rid]"
    and "timers (channel_run rid failed_attempt s)
           = timers s @ [Reconnect_after 3000, Connect_timeout_after 10000]"
    and "toasts (channel_run rid failed_attempt s) = toasts s"
    and "closeRequested (channel_run rid failed_attempt s) = closeRequested s"
  using assms
  by (auto simp: failed_attempt_def ws_onclose_def browser_sets_def scheduleReconnect_def
      reconnect_timer_fires_def connectWebSocket_def Let_def)

lemma failed_attempts_effect:
  "wsRef s \<noteq> None \<Longrightarrow>
     sockets (channel_run rid (failed_attempts n) s) = sockets s @ replicate n rid
   \<and> reconnect_delays (timers (channel_run rid (failed_attempts n) s))
       = reconnect_delays (timers s) @ replicate n 3000
   \<and> toasts (channel_run rid (failed_attempts n) s) = toasts s
   \<and> closeRequested (channel_run rid (failed_attempts n) s) = closeRequested s
   \<and> wsRef (channel_run rid (failed_attempts n) s) \<noteq> None"
proof (induction n arbitrary: s)
  case 0
  then show ?case by simp
next
  case (Suc n)
  let ?s1 = "channel_run rid failed_attempt s"
  note e = failed_attempt_effect [OF Suc.prems, of rid]
  have "wsRef ?s1 \<noteq> None" using e(1) by simp
  from Suc.IH [OF this] show ?case
    by (simp add: channel_run_append e reconnect_delays_append)
qed

text \<open>
  C2, as the specification states it, fails: \<open>scheduleReconnect\<close> always sets its
  timer to 3000 ms, and nothing counts the attempts. After two failed attempts in a
  row the two reconnect delays are equal.
\<close>

theorem reconnect_delay_does_not_grow:
  "reconnect_delays (timers (channel_run ''r1'' (failed_attempts 2) (connected_client ''1'')))
     = [3000, 3000]"
proof -
  have 2: "failed_attempts 2 = failed_attempt @ failed_attempt"
    by (simp add: numeral_2_eq_2)
  have w: "wsRef (connected_client ''1'') \<noteq> None" by (simp add: connected_facts)
  have t: "timers (connected_client ''1'') = []"
    by (simp add: connected_client_def initial_client_def)
  note e1 = failed_attempt_effect [OF w, of "''r1''"]
  have "wsRef (channel_run ''r1'' failed_attempt (connected_client ''1'')) \<noteq> None"
    using e1(1) by simp
  note e2 = failed_attempt_effect [OF this, of "''r1''"]
  show ?thesis
    by (simp add: 2 channel_run_append e1 e2 t)
qed

text \<open>
  C2, amended. While a socket is referenced, a close with a code other than 1000
  sets one reconnect timer of 3000 ms; a close with code 1000 sets none. Every
  failed attempt is followed by another after the same delay: \<open>n\<close> failed attempts
  in a row construct \<open>n\<close> sockets, for every \<open>n\<close>, each after 3000 ms, and this
  path shows the user nothing and does not end the call.
\<close>

theorem reconnect_is_constant_and_unbounded:
  assumes "wsRef s \<noteq> None"
  shows "(code \<noteq> 1000 \<longrightarrow>
            reconnectTimeoutRef (ws_onclose code rid s) = Some 3000
            \<and> timers (ws_onclose code rid s) = timers s @ [Reconnect_after 3000])
    \<and> ws_onclose 1000 rid s = (browser_sets CLOSED s)\<lparr>isConnected := False\<rparr>
    \<and> sockets (channel_run rid (failed_attempts n) s) = sockets s @ replicate n rid
    \<and> reconnect_delays (timers (channel_run rid (failed_attempts n) s))
        = reconnect_delays (timers s) @ replicate n 3000
    \<and> toasts (channel_run rid (failed_attempts n) s) = toasts s
    \<and> closeRequested (channel_run rid (failed_attempts n) s) = closeRequested s"
proof -
  have 1: "code \<noteq> 1000 \<longrightarrow>
            reconnectTimeoutRef (ws_onclose code rid s) = Some 3000
            \<and> timers (ws_onclose code rid s) = timers s @ [Reconnect_after 3000]"
    using assms by (auto simp: ws_onclose_def browser_sets_def scheduleReconnect_def Let_def)
  have 2: "ws_onclose 1000 rid s = (browser_sets CLOSED s)\<lparr>isConnected := False\<rparr>"
    by (simp add: ws_onclose_def Let_def)
  from 1 2 failed_attempts_effect [OF assms, of rid n] show ?thesis by blast
qed

theorem reconnect_is_constant_and_unbounded_witness:
  "reconnectTimeoutRef (ws_onclose 1006 ''r1'' (connected_client ''1'')) = Some 3000
   \<and> sockets (channel_run ''r1'' (failed_attempts 5) (connected_client ''1''))
       = [''r1'', ''r1'', ''r1'', ''r1'', ''r1'']
   \<and> toasts (channel_run ''r1'' (failed_attempts 5) (connected_client ''1'')) = []"
proof -
  have w: "wsRef (connected_client ''1'') \<noteq> None" by (simp add: connected_facts)
  have i: "sockets (connected_client ''1'') = []" "toasts (connected_client ''1'') = []"
    by (simp_all add: connected_client_def initial_client_def)
  have c: "(1006::nat) \<noteq> 1000" by simp
  have r: "replicate 5 ''r1'' = [''r1'', ''r1'', ''r1'', ''r1'', ''r1'']"
    by (simp add: numeral_eq_Suc)
  from reconnect_is_constant_and_unbounded [OF w, of 1006 "''r1''" 5] c i r
  show ?thesis by simp
qed

section \<open>Joining with whatever media there is\<close>

lemma startLocalStream_refused_microphone:
  assumes "getUserMedia b (length (mediaRequests s)) Audio_processing = Inl e"
  shows "startLocalStream b s
     = Throws (s\<lparr>isRequestingPermissions := True,
                  mediaRequests := mediaRequests s @ [(Audio_processing, Inl e)],
                  micPermissionDenied := True\<rparr>)"
  using assms by (simp add: startLocalStream_def request_media_def Let_def)

lemma startLocalStream_failed_camera:
  assumes "getUserMedia b (length (mediaRequests s)) Audio_processing = Inr a"
    and "getUserMedia b (Suc (length (mediaRequests s))) Video_hd = Inl e"
    and "e \<noteq> NotAllowedError"
  shows "\<exists>s'. startLocalStream b s = Throws s'
           \<and> localStreamRef s' = localStreamRef s
           \<and> mediaRequests s'
               = mediaRequests s @ [(Audio_processing, Inr a), (Video_hd, Inl e)]"
  using assms by (simp add: startLocalStream_def request_media_def Let_def)

lemma startLocalStream_fields [simp]:
  "sockets (state_of (startLocalStream b s)) = sockets s"
  "wsRef (state_of (startLocalStream b s)) = wsRef s"
  "closeRequested (state_of (startLocalStream b s)) = closeRequested s"
  "peersRef (state_of (startLocalStream b s)) = peersRef s"
  "roomId (state_of (startLocalStream b s)) = roomId s"
  "sent (state_of (startLocalStream b s)) = sent s"
  "micDeviceAvailable (state_of (startLocalStream b s)) = micDeviceAvailable s"
  by (simp_all add: startLocalStream_def request_media_def Let_def toast_add_def
      split: sum.splits)

lemma initializeCall_connects:
  assumes "api_room_info b = Room_id rid"
  shows "sockets (state_of (initializeCall b s)) = sockets s @ [rid]"
    and "closeRequested (state_of (initializeCall b s)) = closeRequested s"
    and "ws_connect b = Ws_opens \<Longrightarrow> isConnected (state_of (initializeCall b s))"
proof -
  let ?s1 = "s\<lparr>roomId := Some rid\<rparr>"
  let ?s2 = "case startLocalStream b ?s1 of
               Returns s' \<Rightarrow> s'
             | Throws s' \<Rightarrow> s'\<lparr>isRequestingPermissions := False\<rparr>"
  have f: "sockets ?s2 = sockets s" "closeRequested ?s2 = closeRequested s"
    using startLocalStream_fields(1,3) [of b ?s1]
    by (cases "startLocalStream b ?s1"; simp)+
  show "sockets (state_of (initializeCall b s)) = sockets s @ [rid]"
    using assms f
    by (simp add: initializeCall_def Let_def connectWebSocket_def ws_onopen_def ws_onerror_def
        browser_sets_def scheduleReconnect_def connect_timeout_fires_def toast_add_def
        split: ws_outcome.splits)
  show "closeRequested (state_of (initializeCall b s)) = closeRequested s"
    using assms f
    by (simp add: initializeCall_def Let_def connectWebSocket_def ws_onopen_def ws_onerror_def
        browser_sets_def scheduleReconnect_def connect_timeout_fires_def toast_add_def
        split: ws_outcome.splits)
  show "isConnected (state_of (initializeCall b s))" if "ws_connect b = Ws_opens"
    using assms that
    by (simp add: initializeCall_def Let_def ws_onopen_def)
qed

text \<open>
  C5 does not hold of the code. In \<open>startLocalStream\<close> the \<open>catch\<close> block of the
  microphone request ends in \<open>toast.info\<close>, which throws: the camera is never asked.
  With the microphone refused and a camera that would be granted, the call makes one
  media request and joins the room without a local stream. The \<open>catch\<close> block of
  the camera request ends in \<open>toast.info\<close> too, unless the error is
  \<open>NotAllowedError\<close>: with the microphone granted and no camera found, both requests
  are made and the granted microphone never reaches the local stream. In both runs
  the socket for the room is constructed and opens: the failure is not fatal to the
  call, but one kind's failure costs the other.
\<close>

theorem refused_microphone_skips_camera:
  "mediaRequests (state_of (initializeCall camera_only_browser (initial_client ''1'')))
     = [(Audio_processing, Inl NotAllowedError)]
   \<and> localStreamRef (state_of (initializeCall camera_only_browser (initial_client ''1''))) = None
   \<and> sockets (state_of (initializeCall camera_only_browser (initial_client ''1''))) = [''r1'']
   \<and> isConnected (state_of (initializeCall camera_only_browser (initial_client ''1'')))
   \<and> mediaRequests (state_of (initializeCall microphone_only_browser (initial_client ''1'')))
     = [(Audio_processing, Inr [mic2]), (Video_hd, Inl NotFoundError)]
   \<and> localStreamRef (state_of (initializeCall microphone_only_browser (initial_client ''1'')))
     = None
   \<and> sockets (state_of (initializeCall microphone_only_browser (initial_client ''1'')))
     = [''r1'']"
proof -
  let ?s1 = "(initial_client ''1'')\<lparr>roomId := Some ''r1''\<rparr>"
  have i: "mediaRequests ?s1 = []" "localStreamRef ?s1 = None" "sockets (initial_client ''1'') = []"
    by (simp_all add: initial_client_def)
  have c: "getUserMedia camera_only_browser (length (mediaRequests ?s1)) Audio_processing
             = Inl NotAllowedError"
    "api_room_info camera_only_browser = Room_id ''r1''"
    "ws_connect camera_only_browser = Ws_opens"
    by (simp_all add: camera_only_browser_def example_browser_def)
  have m: "getUserMedia microphone_only_browser (length (mediaRequests ?s1)) Audio_processing
             = Inr [mic2]"
    "getUserMedia microphone_only_browser (Suc (length (mediaRequests ?s1))) Video_hd
             = Inl NotFoundError"
    "api_room_info microphone_only_browser = Room_id ''r1''"
    "ws_connect microphone_only_browser = Ws_opens"
    by (simp_all add: microphone_only_browser_def example_browser_def)
  note tc = startLocalStream_refused_microphone [OF c(1)]
  have 1: "mediaRequests (state_of (initializeCall camera_only_browser (initial_client ''1'')))
     = [(Audio_processing, Inl NotAllowedError)]"
    and 2: "localStreamRef (state_of (initializeCall camera_only_browser (initial_client ''1'')))
     = None"
    by (simp_all add: initializeCall_def Let_def c(2,3) tc i initial_facts connectWebSocket_def
        ws_onopen_def browser_sets_def)
  from startLocalStream_failed_camera [OF m(1,2)] obtain s' where s':
    "startLocalStream microphone_only_browser ?s1 = Throws s'"
    "localStreamRef s' = localStreamRef ?s1"
    "mediaRequests s' = mediaRequests ?s1 @ [(Audio_processing, Inr [mic2]), (Video_hd, Inl NotFoundError)]"
    by auto
  have 5: "mediaRequests (state_of (initializeCall microphone_only_browser (initial_client ''1'')))
     = [(Audio_processing, Inr [mic2]), (Video_hd, Inl NotFoundError)]"
    and 6: "localStreamRef (state_of (initializeCall microphone_only_browser (initial_client ''1'')))
     = None"
    by (simp_all add: initializeCall_def Let_def m(3,4) s' i initial_facts connectWebSocket_def
        ws_onopen_def browser_sets_def)
  note kc = initializeCall_connects [OF c(2), of "initial_client ''1''"]
  note km = initializeCall_connects [OF m(3), of "initial_client ''1''"]
  from 1 2 5 6 kc(1) kc(3) [OF c(3)] km(1) i(3) show ?thesis by simp
qed

section \<open>The microphone-presence signal\<close>

lemma fold_keeps:
  assumes "\<And>x s. g (f x s) = g s"
  shows "g (fold f xs s) = g s"
  by (induction xs arbitrary: s) (simp_all add: assms)

lemma update_peer_media [simp]:
  "mediaRequests (update_peer p f s) = mediaRequests s"
  "micDeviceAvailable (update_peer p f s) = micDeviceAvailable s"
  by (simp_all add: update_peer_def set_peer_def split: option.splits)

lemma renegotiate_media [simp]:
  "mediaRequests (renegotiate b g p s) = mediaRequests s"
  "micDeviceAvailable (renegotiate b g p s) = micDeviceAvailable s"
  by (simp_all add: renegotiate_def set_peer_def ws_send_def Let_def
      split: option.splits ready_state.splits)

lemma forEach_peer_keeps:
  assumes "\<And>x s. g (f x s) = g s"
  shows "g (forEach_peer f s) = g s"
  unfolding forEach_peer_def by (rule fold_keeps) (rule assms)

lemma attach_audio_media [simp]:
  "mediaRequests (forEach_peer (attach_audio b rej ts) s) = mediaRequests s"
  "micDeviceAvailable (forEach_peer (attach_audio b rej ts) s) = micDeviceAvailable s"
  by (rule forEach_peer_keeps, simp add: attach_audio_def)+

lemma remove_from_peers_media [simp]:
  "mediaRequests (remove_from_peers ts s) = mediaRequests s"
  "micDeviceAvailable (remove_from_peers ts s) = micDeviceAvailable s"
  unfolding remove_from_peers_def
  by (rule fold_keeps, rule forEach_peer_keeps, simp)+

lemma use_audio_tracks_media [simp]:
  "mediaRequests (use_audio_tracks r st ts s) = mediaRequests s"
  "micDeviceAvailable (use_audio_tracks r st ts s) = micDeviceAvailable s"
  by (simp_all add: use_audio_tracks_def stop_tracks_def Let_def split: option.splits)

lemma checkDeviceAvailability_never_false:
  "micDeviceAvailable (checkDeviceAvailability b s) \<noteq> Some False"
  by (simp add: checkDeviceAvailability_def split: option.splits)

lemma checkDeviceAvailability_requests [simp]:
  "mediaRequests (checkDeviceAvailability b s) = mediaRequests s"
  by (simp add: checkDeviceAvailability_def split: option.splits)

lemma enableMicrophone_failed_false:
  assumes "micDeviceAvailable s \<noteq> Some False"
    and "micDeviceAvailable (snd (enableMicrophone_failed b e s)) = Some False"
  shows "(e = NotFoundError \<or> e = DevicesNotFoundError)
    \<and> (\<exists>e3. mediaRequests (snd (enableMicrophone_failed b e s))
               = mediaRequests s @ [(Audio_plain, Inl e3)])
    \<and> fst (enableMicrophone_failed b e s) = Some False"
  using assms
  by (auto simp: enableMicrophone_failed_def request_media_def Let_def toast_add_def
      toast_info_def split: if_splits sum.splits)

lemma enableMicrophone_false:
  assumes "micDeviceAvailable s \<noteq> Some False"
    and "micDeviceAvailable (snd (enableMicrophone b s)) = Some False"
  shows "(\<exists>e1 e2 e3.
            mediaRequests (snd (enableMicrophone b s))
              = mediaRequests s @
                  [(Audio_optimal, Inl e1), (Audio_plain, Inl e2), (Audio_plain, Inl e3)]
            \<and> (e2 = NotFoundError \<or> e2 = DevicesNotFoundError))
    \<and> fst (enableMicrophone b s) = Some False"
proof -
  let ?n = "length (mediaRequests s)"
  let ?r1 = "getUserMedia b ?n Audio_optimal"
  let ?s1 = "s\<lparr>mediaRequests := mediaRequests s @ [(Audio_optimal, ?r1)]\<rparr>"
  let ?r2 = "getUserMedia b (Suc ?n) Audio_plain"
  let ?s2 = "?s1\<lparr>mediaRequests := mediaRequests ?s1 @ [(Audio_plain, ?r2)]\<rparr>"
  show ?thesis
  proof (cases ?r1)
    case (Inr optimal)
    show ?thesis
    proof (cases "length (getAudioTracks optimal) = 0")
      case True
      then have eq: "enableMicrophone b s = enableMicrophone_failed b OtherError ?s1"
        using Inr by (simp add: enableMicrophone_def request_media_def Let_def)
      have "micDeviceAvailable ?s1 \<noteq> Some False" using assms(1) by simp
      from enableMicrophone_failed_false [OF this, of b OtherError] assms(2) eq
      show ?thesis by simp
    next
      case False
      then have "micDeviceAvailable (snd (enableMicrophone b s)) = micDeviceAvailable s"
        using Inr by (simp add: enableMicrophone_def request_media_def Let_def toast_add_def)
      with assms show ?thesis by simp
    qed
  next
    case (Inl e1)
    note r1 = Inl
    show ?thesis
    proof (cases ?r2)
      case (Inr plain)
      show ?thesis
      proof (cases "length (getAudioTracks plain) = 0")
        case True
        then have eq: "enableMicrophone b s = enableMicrophone_failed b OtherError ?s2"
          using Inr r1 by (simp add: enableMicrophone_def request_media_def Let_def)
        have "micDeviceAvailable ?s2 \<noteq> Some False" using assms(1) by simp
        from enableMicrophone_failed_false [OF this, of b OtherError] assms(2) eq
        show ?thesis by simp
      next
        case False
        then have "micDeviceAvailable (snd (enableMicrophone b s)) = micDeviceAvailable s"
          using Inr r1
          by (simp add: enableMicrophone_def request_media_def Let_def toast_add_def)
        with assms show ?thesis by simp
      qed
    next
      case (Inl e2)
      then have eq: "enableMicrophone b s = enableMicrophone_failed b e2 ?s2"
        using r1 by (simp add: enableMicrophone_def request_media_def Let_def)
      have "micDeviceAvailable ?s2 \<noteq> Some False" using assms(1) by simp
      from enableMicrophone_failed_false [OF this, of b e2] assms(2) eq r1 Inl
      show ?thesis by auto
    qed
  qed
qed

lemma refreshDeviceList_throws: "refreshDeviceList b s = Throws s"
  by (simp add: refreshDeviceList_def)

lemma enableCamera_mic:
  "micDeviceAvailable (snd (enableCamera b s)) = micDeviceAvailable s"
proof -
  have "micDeviceAvailable (forEach_peer (attach_video b ts) t) = micDeviceAvailable t" for ts t
    by (rule forEach_peer_keeps) (simp add: attach_video_def)
  then show ?thesis
    by (simp add: enableCamera_def request_media_def Let_def toast_add_def stop_tracks_def
        split: sum.splits option.splits)
qed

lemma mic_signal_facts:
  "micDeviceAvailable (checkDeviceAvailability b s) \<noteq> Some False"
  "micDeviceAvailable (state_of (startLocalStream b s)) = micDeviceAvailable s"
  "micDeviceAvailable (snd (enableCamera b s)) = micDeviceAvailable s"
  by (simp_all add: checkDeviceAvailability_never_false enableCamera_mic)

text \<open>
  C6. The signal has three values: \<open>Some True\<close>, \<open>Some False\<close> and \<open>None\<close> for
  unknown. Enumeration never yields \<open>Some False\<close>: \<open>checkDeviceAvailability\<close> sets
  true or unknown, and \<open>startLocalStream\<close> and \<open>enableCamera\<close> leave the signal
  alone. \<open>enableMicrophone\<close> sets false only after three refused requests: the
  one with the full constraints, the retry with plain \<open>{audio: true}\<close>, refused for a
  device not found, and one more plain request; it then returns false.
  \<open>refreshDeviceList\<close> throws at its first statement, before any request, and
  leaves the state as it was.
\<close>

theorem microphone_absent_only_after_not_found:
  "micDeviceAvailable (checkDeviceAvailability b s) \<noteq> Some False
   \<and> micDeviceAvailable (state_of (startLocalStream b s)) = micDeviceAvailable s
   \<and> micDeviceAvailable (snd (enableCamera b s)) = micDeviceAvailable s
   \<and> (micDeviceAvailable s \<noteq> Some False
        \<and> micDeviceAvailable (snd (enableMicrophone b s)) = Some False \<longrightarrow>
          (\<exists>e1 e2 e3.
             mediaRequests (snd (enableMicrophone b s))
               = mediaRequests s @
                   [(Audio_optimal, Inl e1), (Audio_plain, Inl e2), (Audio_plain, Inl e3)]
             \<and> (e2 = NotFoundError \<or> e2 = DevicesNotFoundError))
          \<and> fst (enableMicrophone b s) = Some False)
   \<and> refreshDeviceList b s = Throws s"
  using mic_signal_facts [of b s] enableMicrophone_false [of s b] refreshDeviceList_throws [of b s]
  by blast

theorem microphone_absent_only_after_not_found_witness:
  "micDeviceAvailable (snd (enableMicrophone no_microphone_browser (initial_client ''1''))) = Some False
   \<and> mediaRequests (snd (enableMicrophone no_microphone_browser (initial_client ''1'')))
       = [(Audio_optimal, Inl NotFoundError), (Audio_plain, Inl NotFoundError),
          (Audio_plain, Inl NotFoundError)]
   \<and> fst (enableMicrophone no_microphone_browser (initial_client ''1'')) = Some False
   \<and> micDeviceAvailable (checkDeviceAvailability no_microphone_browser (initial_client ''1'')) = None"
proof -
  let ?s = "initial_client ''1''"
  have g: "getUserMedia no_microphone_browser n c = Inl NotFoundError"
    "enumerateDevices no_microphone_browser = Some (Some [])" for n c
    by (simp_all add: no_microphone_browser_def example_browser_def)
  have h0: "micDeviceAvailable ?s \<noteq> Some False" by (simp add: initial_facts)
  have h1: "micDeviceAvailable (snd (enableMicrophone no_microphone_browser ?s)) = Some False"
    by (simp add: enableMicrophone_def enableMicrophone_failed_def request_media_def Let_def g
        toast_add_def)
  have h4: "micDeviceAvailable (checkDeviceAvailability no_microphone_browser ?s) = None"
    by (simp add: checkDeviceAvailability_def g)
  note T = microphone_absent_only_after_not_found [of no_microphone_browser ?s]
  from T h0 h1 have r: "fst (enableMicrophone no_microphone_browser ?s) = Some False"
    by blast
  have m1: "mediaRequests (snd (enableMicrophone no_microphone_browser ?s))
       = [(Audio_optimal, Inl NotFoundError), (Audio_plain, Inl NotFoundError),
          (Audio_plain, Inl NotFoundError)]"
    by (simp add: enableMicrophone_def enableMicrophone_failed_def request_media_def Let_def g
        toast_add_def initial_facts)
  from h1 m1 r h4 show ?thesis by blast
qed

section \<open>Attaching a new local track\<close>

lemma first_index_Some:
  "first_index P xs = Some i \<Longrightarrow> i < length xs \<and> P (xs ! i) \<and> (\<forall>j<i. \<not> P (xs ! j))"
proof (induction xs arbitrary: i)
  case Nil
  then show ?case by simp
next
  case (Cons x xs)
  show ?case
  proof (cases "P x")
    case True
    with Cons.prems show ?thesis by simp
  next
    case False
    with Cons.prems obtain k where k: "first_index P xs = Some k" "i = Suc k" by auto
    from Cons.IH [OF k(1)] False k(2) show ?thesis
      by (auto simp: nth_Cons split: nat.splits)
  qed
qed

lemma first_index_None: "first_index P xs = None \<longleftrightarrow> (\<forall>x \<in> set xs. \<not> P x)"
  by (induction xs) auto

lemma find_sender_of_kind_Some:
  assumes "find_sender_of_kind k pc = Some i"
  shows "i < length (senders pc) \<and> (\<exists>t0. senders pc ! i = Some t0 \<and> kind t0 = k)"
proof -
  from first_index_Some [OF assms [unfolded find_sender_of_kind_def]]
  show ?thesis by (auto split: option.splits)
qed

lemma find_sender_of_kind_None:
  "find_sender_of_kind k pc = None \<longleftrightarrow> (\<forall>t0. Some t0 \<in> set (senders pc) \<longrightarrow> kind t0 \<noteq> k)"
  by (auto simp: find_sender_of_kind_def first_index_None split: option.splits)

lemma addTrack_cases:
  "(\<exists>j<length (senders pc). senders pc ! j = None \<and> reuses_sender b p j t
        \<and> addTrack b p t pc = pc\<lparr>senders := (senders pc)[j := Some t]\<rparr>)
   \<or> addTrack b p t pc = pc\<lparr>senders := senders pc @ [Some t]\<rparr>"
proof (cases "find (\<lambda>i. senders pc ! i = None \<and> reuses_sender b p i t) [0..<length (senders pc)]")
  case None
  then show ?thesis by (simp add: addTrack_def)
next
  case (Some j)
  then have "j < length (senders pc) \<and> senders pc ! j = None \<and> reuses_sender b p j t"
    by (auto simp: find_Some_iff)
  with Some show ?thesis by (auto simp: addTrack_def)
qed

lemma attach_track_cases:
  "(find_sender_of_kind k pc = Some i \<longrightarrow>
       i < length (senders pc) \<and> (\<exists>t0. senders pc ! i = Some t0 \<and> kind t0 = k)
       \<and> (replaceTrack_ok b p t \<longrightarrow>
             attach_track b rej p k t pc = pc\<lparr>senders := (senders pc)[i := Some t]\<rparr>
             \<and> length (senders (attach_track b rej p k t pc)) = length (senders pc))
       \<and> (\<not> replaceTrack_ok b p t \<longrightarrow>
             attach_track b Log_only p k t pc = pc
             \<and> attach_track b AddTrack_instead p k t pc = addTrack b p t pc))
   \<and> (find_sender_of_kind k pc = None \<longrightarrow>
         (\<forall>t0. Some t0 \<in> set (senders pc) \<longrightarrow> kind t0 \<noteq> k)
         \<and> attach_track b rej p k t pc = addTrack b p t pc)"
proof -
  have 1: "find_sender_of_kind k pc = Some i \<longrightarrow>
       i < length (senders pc) \<and> (\<exists>t0. senders pc ! i = Some t0 \<and> kind t0 = k)"
    using find_sender_of_kind_Some by blast
  have 2: "find_sender_of_kind k pc = Some i \<longrightarrow>
       (replaceTrack_ok b p t \<longrightarrow>
             attach_track b rej p k t pc = pc\<lparr>senders := (senders pc)[i := Some t]\<rparr>
             \<and> length (senders (attach_track b rej p k t pc)) = length (senders pc))
       \<and> (\<not> replaceTrack_ok b p t \<longrightarrow>
             attach_track b Log_only p k t pc = pc
             \<and> attach_track b AddTrack_instead p k t pc = addTrack b p t pc)"
    by (simp add: attach_track_def)
  have 3: "find_sender_of_kind k pc = None \<longrightarrow>
         (\<forall>t0. Some t0 \<in> set (senders pc) \<longrightarrow> kind t0 \<noteq> k)
         \<and> attach_track b rej p k t pc = addTrack b p t pc"
    using find_sender_of_kind_None [of k pc] by (auto simp: attach_track_def)
  from 1 2 3 show ?thesis by blast
qed

lemma fold_peer_entry:
  assumes other: "\<And>k q t. q \<noteq> k \<Longrightarrow> map_of (peersRef (f k t)) q = map_of (peersRef t) q"
    and self: "\<And>k pc t. map_of (peersRef t) k = Some pc \<Longrightarrow>
                 \<exists>pc'. map_of (peersRef (f k t)) k = Some pc' \<and> R k pc pc'"
  shows "distinct ks \<Longrightarrow> map_of (peersRef s) p = Some pc \<Longrightarrow>
     (p \<in> set ks \<longrightarrow> (\<exists>pc'. map_of (peersRef (fold f ks s)) p = Some pc' \<and> R p pc pc'))
     \<and> (p \<notin> set ks \<longrightarrow> map_of (peersRef (fold f ks s)) p = Some pc)"
proof (induction ks arbitrary: s pc)
  case Nil
  then show ?case by simp
next
  case (Cons k ks)
  show ?case
  proof (cases "k = p")
    case True
    from self [OF Cons.prems(2) [folded True]] True
    obtain pc' where pc': "map_of (peersRef (f k s)) p = Some pc'" "R p pc pc'" by auto
    have "p \<notin> set ks" using Cons.prems(1) True by simp
    with Cons.IH [of "f k s" pc'] Cons.prems(1) pc' True show ?thesis by simp
  next
    case False
    then have "map_of (peersRef (f k s)) p = Some pc"
      using other [of p k s] Cons.prems(2) by simp
    with Cons.IH [of "f k s" pc] Cons.prems(1) False show ?thesis by auto
  qed
qed

lemma forEach_peer_entry:
  assumes other: "\<And>k q t. q \<noteq> k \<Longrightarrow> map_of (peersRef (f k t)) q = map_of (peersRef t) q"
    and self: "\<And>k pc t. map_of (peersRef t) k = Some pc \<Longrightarrow>
                 \<exists>pc'. map_of (peersRef (f k t)) k = Some pc' \<and> R k pc pc'"
    and d: "distinct (map fst (peersRef s))"
    and m: "map_of (peersRef s) p = Some pc"
  shows "\<exists>pc'. map_of (peersRef (forEach_peer f s)) p = Some pc' \<and> R p pc pc'"
proof -
  have "p \<in> set (map fst (peersRef s))"
    using m by (metis map_of_eq_None_iff option.distinct(1) set_map)
  with fold_peer_entry [of f R "map fst (peersRef s)" s p pc, OF other self d m]
  show ?thesis by (simp add: forEach_peer_def)
qed

lemma update_peer_other:
  "q \<noteq> k \<Longrightarrow> map_of (peersRef (update_peer k F t)) q = map_of (peersRef t) q"
  by (simp add: update_peer_def update_conv' split: option.splits)

lemma update_peer_self:
  "map_of (peersRef t) k = Some pc \<Longrightarrow> map_of (peersRef (update_peer k F t)) k = Some (F pc)"
  by (simp add: update_peer_def update_conv')

lemma renegotiate_other:
  "q \<noteq> k \<Longrightarrow> map_of (peersRef (renegotiate b g k t)) q = map_of (peersRef t) q"
  by (simp add: renegotiate_def Let_def update_conv' split: option.splits)

lemma renegotiate_self:
  "map_of (peersRef t) k = Some pc \<Longrightarrow>
     \<exists>pc'. map_of (peersRef (renegotiate b g k t)) k = Some pc' \<and> senders pc' = senders pc"
  by (simp add: renegotiate_def Let_def update_conv' split: option.splits)

lemma forEach_attach_video:
  assumes "distinct (map fst (peersRef s))" and "map_of (peersRef s) p = Some pc"
  shows "\<exists>pc'. map_of (peersRef (forEach_peer (attach_video b ts) s)) p = Some pc'
           \<and> senders pc' = senders (fold (attach_track b Log_only p Video) ts pc)"
proof (rule forEach_peer_entry
    [where R = "\<lambda>k pc pc'. senders pc' = senders (fold (attach_track b Log_only k Video) ts pc)",
      OF _ _ assms])
  fix k q :: string and t :: client
  assume "q \<noteq> k"
  then show "map_of (peersRef (attach_video b ts k t)) q = map_of (peersRef t) q"
    by (simp add: attach_video_def renegotiate_other update_peer_other)
next
  fix k :: string and pc :: peer_conn and t :: client
  assume "map_of (peersRef t) k = Some pc"
  from renegotiate_self [OF update_peer_self [OF this]]
  show "\<exists>pc'. map_of (peersRef (attach_video b ts k t)) k = Some pc'
           \<and> senders pc' = senders (fold (attach_track b Log_only k Video) ts pc)"
    by (simp add: attach_video_def)
qed

lemma forEach_attach_audio:
  assumes "distinct (map fst (peersRef s))" and "map_of (peersRef s) p = Some pc"
  shows "\<exists>pc'. map_of (peersRef (forEach_peer (attach_audio b rej ts) s)) p = Some pc'
           \<and> senders pc' = senders (fold (attach_track b rej p Audio) ts pc)"
proof (rule forEach_peer_entry
    [where R = "\<lambda>k pc pc'. senders pc' = senders (fold (attach_track b rej k Audio) ts pc)",
      OF _ _ assms])
  fix k q :: string and t :: client
  assume "q \<noteq> k"
  then show "map_of (peersRef (attach_audio b rej ts k t)) q = map_of (peersRef t) q"
    by (simp add: attach_audio_def renegotiate_other update_peer_other)
next
  fix k :: string and pc :: peer_conn and t :: client
  assume "map_of (peersRef t) k = Some pc"
  from renegotiate_self [OF update_peer_self [OF this]]
  show "\<exists>pc'. map_of (peersRef (attach_audio b rej ts k t)) k = Some pc'
           \<and> senders pc' = senders (fold (attach_track b rej k Audio) ts pc)"
    by (simp add: attach_audio_def)
qed

lemma enableCamera_attaches:
  assumes "distinct (map fst (peersRef s))" and "map_of (peersRef s) p = Some pc"
    and "getUserMedia b (length (mediaRequests s)) Video_hd = Inr vs"
  shows "\<exists>pc'. map_of (peersRef (snd (enableCamera b s))) p = Some pc'
           \<and> senders pc' = senders (fold (attach_track b Log_only p Video) (getVideoTracks vs) pc)"
proof -
  let ?s1 = "s\<lparr>mediaRequests := mediaRequests s @ [(Video_hd, Inr vs)]\<rparr>"
  let ?s2 = "case localStreamRef ?s1 of
               None \<Rightarrow> ?s1\<lparr>localStreamRef := Some vs\<rparr>
             | Some ls \<Rightarrow> (stop_tracks (getVideoTracks ls) ?s1)
                 \<lparr>localStreamRef := Some (fold stream_addTrack (getVideoTracks vs) ls)\<rparr>"
  let ?s3 = "?s2\<lparr>videoEnabled := True, cameraPermissionDenied := False\<rparr>"
  have p3: "peersRef ?s3 = peersRef s"
    by (simp add: stop_tracks_def split: option.splits)
  have eq: "peersRef (snd (enableCamera b s))
      = peersRef (forEach_peer (attach_video b (getVideoTracks vs)) ?s3)"
    using assms(3) by (simp add: enableCamera_def request_media_def Let_def toast_add_def)
  from forEach_attach_video [of ?s3 p pc b "getVideoTracks vs"] assms(1,2) p3
  show ?thesis unfolding eq by simp
qed

lemma update_peer_keys [simp]: "map fst (peersRef (update_peer k F t)) = map fst (peersRef t)"
proof (cases "map_of (peersRef t) k")
  case None
  then show ?thesis by (simp add: update_peer_def)
next
  case (Some pc)
  then have "k \<in> fst ` set (peersRef t)"
    by (metis map_of_eq_None_iff option.distinct(1))
  with Some show ?thesis by (simp add: update_peer_def update_keys)
qed

lemma remove_track_everywhere:
  assumes "distinct (map fst (peersRef s))" and "map_of (peersRef s) p = Some pc"
  shows "map_of (peersRef (forEach_peer (\<lambda>k. update_peer k (removeTrack_of t)) s)) p
           = Some (removeTrack_of t pc)"
proof -
  from forEach_peer_entry
    [where f = "\<lambda>k. update_peer k (removeTrack_of t)" and R = "\<lambda>k pc pc'. pc' = removeTrack_of t pc",
      OF _ _ assms]
  show ?thesis by (simp add: update_peer_other update_peer_self)
qed

lemma remove_track_everywhere_keys:
  "map fst (peersRef (forEach_peer (\<lambda>k. update_peer k (removeTrack_of t)) s)) = map fst (peersRef s)"
  by (rule forEach_peer_keeps [where g = "\<lambda>s. map fst (peersRef s)"]) simp

lemma remove_from_peers_entry:
  "distinct (map fst (peersRef s)) \<Longrightarrow> map_of (peersRef s) p = Some pc \<Longrightarrow>
     map_of (peersRef (remove_from_peers ts s)) p = Some (fold removeTrack_of ts pc)
     \<and> map fst (peersRef (remove_from_peers ts s)) = map fst (peersRef s)"
proof (induction ts arbitrary: s pc)
  case Nil
  then show ?case by (simp add: remove_from_peers_def)
next
  case (Cons t ts)
  let ?s1 = "forEach_peer (\<lambda>k. update_peer k (removeTrack_of t)) s"
  have k: "map fst (peersRef ?s1) = map fst (peersRef s)" by (rule remove_track_everywhere_keys)
  have d: "distinct (map fst (peersRef ?s1))" using Cons.prems(1) k by simp
  have m: "map_of (peersRef ?s1) p = Some (removeTrack_of t pc)"
    using Cons.prems by (rule remove_track_everywhere)
  from Cons.IH [OF d m, unfolded remove_from_peers_def] k
  show ?case by (simp add: remove_from_peers_def)
qed

lemma use_audio_tracks_entry:
  assumes "distinct (map fst (peersRef s))" and "map_of (peersRef s) p = Some pc"
  shows "map_of (peersRef (use_audio_tracks True st ts s)) p
           = Some (fold removeTrack_of
                     (case localStreamRef s of None \<Rightarrow> [] | Some ls \<Rightarrow> getAudioTracks ls) pc)
     \<and> distinct (map fst (peersRef (use_audio_tracks True st ts s)))"
proof (cases "localStreamRef s")
  case None
  with assms show ?thesis by (simp add: use_audio_tracks_def)
next
  case (Some ls)
  let ?s1 = "stop_tracks (getAudioTracks ls) s"
  have "distinct (map fst (peersRef ?s1))" "map_of (peersRef ?s1) p = Some pc"
    using assms by (simp_all add: stop_tracks_def)
  from remove_from_peers_entry [OF this, of "getAudioTracks ls"] assms(1) Some
  show ?thesis by (simp add: use_audio_tracks_def Let_def stop_tracks_def)
qed

lemma enableMicrophone_attaches:
  assumes "distinct (map fst (peersRef s))" and "map_of (peersRef s) p = Some pc"
    and "getUserMedia b (length (mediaRequests s)) Audio_optimal = Inr st"
    and "length (getAudioTracks st) > 0"
  shows "\<exists>pc'. map_of (peersRef (snd (enableMicrophone b s))) p = Some pc'
           \<and> senders pc'
               = senders (fold (attach_track b AddTrack_instead p Audio) (getAudioTracks st)
                   (fold removeTrack_of
                     (case localStreamRef s of None \<Rightarrow> [] | Some ls \<Rightarrow> getAudioTracks ls) pc))"
proof -
  let ?s2 = "s\<lparr>mediaRequests := mediaRequests s @ [(Audio_optimal, Inr st)]\<rparr>"
  let ?s3 = "use_audio_tracks True st (getAudioTracks st) ?s2"
  let ?s4 = "?s3\<lparr>audioEnabled := True, micPermissionDenied := False\<rparr>"
  have pre: "distinct (map fst (peersRef ?s2))" "map_of (peersRef ?s2) p = Some pc"
    using assms(1,2) by simp_all
  note u = use_audio_tracks_entry [OF pre, of st "getAudioTracks st"]
  have d4: "distinct (map fst (peersRef ?s4))" using u by simp
  have m4: "map_of (peersRef ?s4) p
     = Some (fold removeTrack_of
               (case localStreamRef s of None \<Rightarrow> [] | Some ls \<Rightarrow> getAudioTracks ls) pc)"
    using u by simp
  have eq: "peersRef (snd (enableMicrophone b s))
      = peersRef (forEach_peer (attach_audio b AddTrack_instead (getAudioTracks st)) ?s4)"
    using assms(3,4) by (simp add: enableMicrophone_def request_media_def Let_def toast_add_def)
  from forEach_attach_audio [OF d4 m4] show ?thesis unfolding eq by simp
qed

lemma attach_or_renegotiate_entry:
  assumes "map_of (peersRef s) p = Some pc"
  shows "(\<exists>pc'. map_of (peersRef (attach_or_renegotiate b p t s)) p = Some pc'
            \<and> senders pc' = senders (attach_track b Log_only p (kind t) t pc))
    \<and> (find_sender_of_kind (kind t) pc \<noteq> None \<longrightarrow> sent (attach_or_renegotiate b p t s) = sent s)"
proof -
  let ?s1 = "set_peer p (attach_track b Log_only p (kind t) t pc) s"
  have m: "map_of (peersRef ?s1) p = Some (attach_track b Log_only p (kind t) t pc)"
    by (simp add: update_conv')
  from renegotiate_self [OF m, of b False] assms
  show ?thesis by (auto simp: attach_or_renegotiate_def Let_def update_conv')
qed

lemma attach_track_senders_cong:
  "senders pc1 = senders pc2 \<Longrightarrow>
     senders (attach_track b rej p k t pc1) = senders (attach_track b rej p k t pc2)"
  by (simp add: attach_track_def find_sender_of_kind_def addTrack_def
      split: option.splits on_rejection.splits)

lemma fold_attach_senders_cong:
  "senders pc1 = senders pc2 \<Longrightarrow>
     senders (fold (\<lambda>t. attach_track b rej p (kind t) t) ts pc1)
       = senders (fold (\<lambda>t. attach_track b rej p (kind t) t) ts pc2)"
proof (induction ts arbitrary: pc1 pc2)
  case Nil
  then show ?case by simp
next
  case (Cons t ts)
  from Cons.IH [OF attach_track_senders_cong [OF Cons.prems]] show ?case by simp
qed

lemma renegotiate_fields [simp]:
  "localStreamRef (renegotiate b g p s) = localStreamRef s"
  by (simp add: renegotiate_def set_peer_def ws_send_def Let_def
      split: option.splits ready_state.splits)

lemma attach_or_renegotiate_other:
  "q \<noteq> k \<Longrightarrow> map_of (peersRef (attach_or_renegotiate b k t s)) q = map_of (peersRef s) q"
  by (simp add: attach_or_renegotiate_def Let_def update_conv' renegotiate_other
      split: option.splits)

lemma attach_or_renegotiate_stream [simp]:
  "localStreamRef (attach_or_renegotiate b k t s) = localStreamRef s"
  by (simp add: attach_or_renegotiate_def Let_def split: option.splits)

lemma fold_attach_or_renegotiate_other:
  "q \<noteq> k \<Longrightarrow>
     map_of (peersRef (fold (attach_or_renegotiate b k) ts s)) q = map_of (peersRef s) q"
  by (induction ts arbitrary: s) (simp_all add: attach_or_renegotiate_other)

lemma fold_attach_or_renegotiate_self:
  "map_of (peersRef s) k = Some pc \<Longrightarrow>
     \<exists>pc'. map_of (peersRef (fold (attach_or_renegotiate b k) ts s)) k = Some pc'
        \<and> senders pc' = senders (fold (\<lambda>t. attach_track b Log_only k (kind t) t) ts pc)"
proof (induction ts arbitrary: s pc)
  case Nil
  then show ?case by simp
next
  case (Cons t ts)
  from attach_or_renegotiate_entry [OF Cons.prems, of b t]
  obtain pc1 where 1: "map_of (peersRef (attach_or_renegotiate b k t s)) k = Some pc1"
    and 2: "senders pc1 = senders (attach_track b Log_only k (kind t) t pc)"
    by blast
  from Cons.IH [OF 1] fold_attach_senders_cong [OF 2, of b Log_only k ts]
  show ?case by simp
qed

lemma retryPermissions_attaches:
  assumes "distinct (map fst (peersRef s))" and "map_of (peersRef s) p = Some pc"
    and "truthy (roomId s)" and "retryPermissions b s = Returns s'"
    and "localStreamRef s' = Some ls"
  shows "\<exists>pc'. map_of (peersRef s') p = Some pc'
           \<and> senders pc'
               = senders (fold (\<lambda>t. attach_track b Log_only p (kind t) t) ls
                   (fold removeTrack_of
                      (case localStreamRef s of None \<Rightarrow> [] | Some old \<Rightarrow> old) pc))"
proof -
  let ?old = "case localStreamRef s of None \<Rightarrow> [] | Some old \<Rightarrow> old"
  let ?s0 = "s\<lparr>isRequestingPermissions := True\<rparr>"
  let ?s1 = "case localStreamRef ?s0 of None \<Rightarrow> ?s0
             | Some l \<Rightarrow> remove_from_peers l (stop_tracks l ?s0)"
  let ?s2 = "?s1\<lparr>micPermissionDenied := False, cameraPermissionDenied := False\<rparr>"
  let ?f = "\<lambda>peerId. fold (attach_or_renegotiate b peerId) ls"
  have e1: "map_of (peersRef ?s1) p = Some (fold removeTrack_of ?old pc)
      \<and> map fst (peersRef ?s1) = map fst (peersRef s)"
  proof (cases "localStreamRef s")
    case None
    with assms(2) show ?thesis by simp
  next
    case (Some l)
    have "distinct (map fst (peersRef (stop_tracks l ?s0)))"
      "map_of (peersRef (stop_tracks l ?s0)) p = Some pc"
      using assms(1,2) by (simp_all add: stop_tracks_def)
    from remove_from_peers_entry [OF this, of l] Some show ?thesis
      by (simp add: stop_tracks_def)
  qed
  have run: "retryPermissions b s
      = and_then (startLocalStream b ?s2)
          (\<lambda>s3. case localStreamRef s3 of
                   None \<Rightarrow> Returns s3
                 | Some l \<Rightarrow>
                     if truthy (roomId s) \<and> length (peersRef s3) > 0
                     then Returns
                            (forEach_peer (\<lambda>peerId. fold (attach_or_renegotiate b peerId) l) s3)
                     else Returns s3)"
    by (simp add: retryPermissions_def Let_def)
  from assms(4) obtain s3 where r: "startLocalStream b ?s2 = Returns s3"
    unfolding run by (cases "startLocalStream b ?s2") simp_all
  have "peersRef (state_of (startLocalStream b ?s2)) = peersRef ?s2"
    by (rule startLocalStream_fields)
  then have p3: "peersRef s3 = peersRef ?s2"
    unfolding r by simp
  have d3: "distinct (map fst (peersRef s3))" using e1 assms(1) p3 by simp
  have m3: "map_of (peersRef s3) p = Some (fold removeTrack_of ?old pc)" using e1 p3 by simp
  have ne: "length (peersRef s3) > 0" using m3 by (cases "peersRef s3") simp_all
  have keep: "localStreamRef (forEach_peer (\<lambda>peerId. fold (attach_or_renegotiate b peerId) l) t)
      = localStreamRef t" for l t
    by (rule forEach_peer_keeps, rule fold_keeps) simp
  have s': "s' = (case localStreamRef s3 of
                   None \<Rightarrow> s3
                 | Some l \<Rightarrow> forEach_peer (\<lambda>peerId. fold (attach_or_renegotiate b peerId) l) s3)"
    using assms(3,4) ne unfolding run r by (simp split: option.splits)
  have st: "localStreamRef s3 = Some ls"
    using assms(5) keep unfolding s' by (cases "localStreamRef s3") simp_all
  have eq: "s' = forEach_peer ?f s3" unfolding s' st by simp
  have "\<exists>pc'. map_of (peersRef (forEach_peer ?f s3)) p = Some pc'
     \<and> senders pc' = senders (fold (\<lambda>t. attach_track b Log_only p (kind t) t) ls
                          (fold removeTrack_of ?old pc))"
  proof (rule forEach_peer_entry
      [where R = "\<lambda>k pc pc'. senders pc'
          = senders (fold (\<lambda>t. attach_track b Log_only k (kind t) t) ls pc)", OF _ _ d3 m3])
    fix k q :: string and t :: client
    assume "q \<noteq> k"
    then show "map_of (peersRef (fold (attach_or_renegotiate b k) ls t)) q = map_of (peersRef t) q"
      by (rule fold_attach_or_renegotiate_other)
  next
    fix k :: string and pc :: peer_conn and t :: client
    assume "map_of (peersRef t) k = Some pc"
    then show "\<exists>pc'. map_of (peersRef (fold (attach_or_renegotiate b k) ls t)) k = Some pc'
        \<and> senders pc' = senders (fold (\<lambda>t. attach_track b Log_only k (kind t) t) ls pc)"
      by (rule fold_attach_or_renegotiate_self)
  qed
  then show ?thesis unfolding eq .
qed

lemma talking_facts:
  "peersRef talking_client = [(''2'', new_RTCPeerConnection\<lparr>senders := [Some mic1]\<rparr>)]"
  "localStreamRef talking_client = Some [mic1]"
  "mediaRequests talking_client = []"
  "wsRef talking_client = Some OPEN"
  "micDeviceAvailable talking_client = None"
  "roomId talking_client = Some ''r1''"
  by (simp_all add: talking_client_def connected_client_def initial_client_def set_peer_def)

lemma track_facts [simp]:
  "kind mic1 = Audio" "kind mic2 = Audio" "kind cam = Video"
  "mic1 \<noteq> mic2" "mic2 \<noteq> mic1" "mic1 \<noteq> cam" "mic2 \<noteq> cam" "cam \<noteq> mic1" "cam \<noteq> mic2"
  by (simp_all add: mic1_def mic2_def cam_def)

lemma talking_sender:
  "senders (new_RTCPeerConnection\<lparr>senders := [Some mic1]\<rparr>) = [Some mic1]"
  "find_sender_of_kind Audio (new_RTCPeerConnection\<lparr>senders := [Some mic1]\<rparr>) = Some 0"
  "find_sender_of_kind Video (new_RTCPeerConnection\<lparr>senders := [Some mic1]\<rparr>) = None"
  by (simp_all add: new_RTCPeerConnection_def find_sender_of_kind_def)

text \<open>
  C7, as the specification states it, fails in \<open>enableMicrophone\<close>: when
  \<open>replaceTrack\<close> is rejected the track is added with \<open>addTrack\<close> instead. Alice
  is in a call with Bob, her microphone track on the link; the microphone is found at
  the third request only, and the browser rejects the replacement: the link ends with
  two senders, although it had one for audio.
\<close>

theorem rejected_replacement_adds_sender:
  "map_option senders (map_of (peersRef talking_client) ''2'') = Some [Some mic1]
   \<and> find_sender_of_kind Audio (new_RTCPeerConnection\<lparr>senders := [Some mic1]\<rparr>) = Some 0
   \<and> fst (enableMicrophone late_microphone_browser talking_client) = Some True
   \<and> map_option senders
        (map_of (peersRef (snd (enableMicrophone late_microphone_browser talking_client))) ''2'')
       = Some [Some mic1, Some mic2]"
proof -
  have g: "getUserMedia late_microphone_browser 0 c = Inl NotFoundError"
    "getUserMedia late_microphone_browser (Suc 0) c = Inl NotFoundError"
    "getUserMedia late_microphone_browser (Suc (Suc 0)) c = Inr [mic2]"
    "\<not> replaceTrack_ok late_microphone_browser p t"
    "createOffer late_microphone_browser p = Some ''offer''"
    "setLocalDescription_ok late_microphone_browser p" for c p t
    by (simp_all add: late_microphone_browser_def example_browser_def)
  have run: "enableMicrophone late_microphone_browser talking_client
      = enableMicrophone_failed late_microphone_browser NotFoundError
          (talking_client\<lparr>mediaRequests :=
             [(Audio_optimal, Inl NotFoundError), (Audio_plain, Inl NotFoundError)]\<rparr>)"
    by (simp add: enableMicrophone_def request_media_def Let_def talking_facts g)
  have a: "addTrack late_microphone_browser ''2'' mic2 (new_RTCPeerConnection\<lparr>senders := [Some mic1]\<rparr>)
      = new_RTCPeerConnection\<lparr>senders := [Some mic1, Some mic2]\<rparr>"
    by (simp add: addTrack_appends new_RTCPeerConnection_def)
  have 3: "fst (enableMicrophone late_microphone_browser talking_client) = Some True"
    by (simp add: run enableMicrophone_failed_def request_media_def Let_def talking_facts g
        getAudioTracks_def)
  have 4: "map_option senders
        (map_of (peersRef (snd (enableMicrophone late_microphone_browser talking_client))) ''2'')
       = Some [Some mic1, Some mic2]"
    by (simp add: run enableMicrophone_failed_def request_media_def Let_def talking_facts g
        getAudioTracks_def use_audio_tracks_def stop_tracks_def forEach_peer_def
        attach_audio_def update_peer_def attach_track_def talking_sender a
        renegotiate_def toast_add_def set_peer_def)
  show ?thesis using 3 4 by (simp add: talking_facts talking_sender)
qed

lemma startLocalStream_granted:
  assumes "getUserMedia b (length (mediaRequests s)) Audio_processing = Inr a"
    and "getUserMedia b (Suc (length (mediaRequests s))) Video_hd = Inr v"
  shows "\<exists>s'. startLocalStream b s = Returns s'
           \<and> localStreamRef s'
               = Some (fold stream_addTrack (getVideoTracks v)
                         (fold stream_addTrack (getAudioTracks a) []))"
  using assms by (simp add: startLocalStream_def request_media_def Let_def)

lemma retryPermissions_granted:
  assumes "getUserMedia b (length (mediaRequests s)) Audio_processing = Inr a"
    and "getUserMedia b (Suc (length (mediaRequests s))) Video_hd = Inr v"
  shows "\<exists>s'. retryPermissions b s = Returns s'
           \<and> localStreamRef s'
               = Some (fold stream_addTrack (getVideoTracks v)
                         (fold stream_addTrack (getAudioTracks a) []))"
proof -
  let ?s0 = "s\<lparr>isRequestingPermissions := True\<rparr>"
  let ?s1 = "case localStreamRef ?s0 of None \<Rightarrow> ?s0
             | Some l \<Rightarrow> remove_from_peers l (stop_tracks l ?s0)"
  let ?s2 = "?s1\<lparr>micPermissionDenied := False, cameraPermissionDenied := False\<rparr>"
  have m: "mediaRequests ?s2 = mediaRequests s"
    by (simp add: stop_tracks_def split: option.splits)
  from startLocalStream_granted [of b ?s2 a v] assms m obtain s3 where
    r: "startLocalStream b ?s2 = Returns s3"
    and l: "localStreamRef s3 = Some (fold stream_addTrack (getVideoTracks v)
                         (fold stream_addTrack (getAudioTracks a) []))"
    by auto
  have keep: "localStreamRef (forEach_peer (\<lambda>peerId. fold (attach_or_renegotiate b peerId) ls) t)
      = localStreamRef t" for ls t
    by (rule forEach_peer_keeps, rule fold_keeps) simp
  have run: "retryPermissions b s
      = and_then (startLocalStream b ?s2)
          (\<lambda>s3. case localStreamRef s3 of
                   None \<Rightarrow> Returns s3
                 | Some ls \<Rightarrow>
                     if truthy (roomId s) \<and> length (peersRef s3) > 0
                     then Returns
                            (forEach_peer (\<lambda>peerId. fold (attach_or_renegotiate b peerId) ls) s3)
                     else Returns s3)"
    by (simp add: retryPermissions_def Let_def)
  show ?thesis unfolding run r by (simp add: l keep)
qed

text \<open>
  C7, amended. The attachment step looks for the first sender whose track has the
  kind of the new track. If there is one, \<open>replaceTrack\<close> is called on it: when it
  succeeds the track takes that sender's place and no sender is added; when it is
  rejected, \<open>retryPermissions\<close> and \<open>enableCamera\<close> leave the connection as it
  is, and \<open>enableMicrophone\<close> calls \<open>addTrack\<close>. If there is none, \<open>addTrack\<close>
  is called. \<open>addTrack\<close> puts the track on a freed sender that the engine reuses, or
  else adds a sender at the end, as it always does when no sender is free.
  \<open>enableCamera\<close> and \<open>enableMicrophone\<close> apply the step to every peer
  connection, for each new track (the latter after taking the old audio tracks off
  the senders); so does \<open>retryPermissions\<close> whenever it returns, after taking all
  old tracks off, and there a track whose kind had a sender is attached without
  anything being sent.
\<close>

theorem attachment_prefers_replacement:
  "(find_sender_of_kind k pc = Some i \<longrightarrow>
       i < length (senders pc) \<and> (\<exists>t0. senders pc ! i = Some t0 \<and> kind t0 = k)
       \<and> (replaceTrack_ok b p t \<longrightarrow>
             attach_track b rej p k t pc = pc\<lparr>senders := (senders pc)[i := Some t]\<rparr>
             \<and> length (senders (attach_track b rej p k t pc)) = length (senders pc))
       \<and> (\<not> replaceTrack_ok b p t \<longrightarrow>
             attach_track b Log_only p k t pc = pc
             \<and> attach_track b AddTrack_instead p k t pc = addTrack b p t pc))
   \<and> (find_sender_of_kind k pc = None \<longrightarrow>
         (\<forall>t0. Some t0 \<in> set (senders pc) \<longrightarrow> kind t0 \<noteq> k)
         \<and> attach_track b rej p k t pc = addTrack b p t pc)
   \<and> ((\<exists>j<length (senders pc). senders pc ! j = None \<and> reuses_sender b p j t
          \<and> addTrack b p t pc = pc\<lparr>senders := (senders pc)[j := Some t]\<rparr>)
        \<or> addTrack b p t pc = pc\<lparr>senders := senders pc @ [Some t]\<rparr>)
   \<and> (None \<notin> set (senders pc) \<longrightarrow>
         addTrack b p t pc = pc\<lparr>senders := senders pc @ [Some t]\<rparr>)
   \<and> (distinct (map fst (peersRef s)) \<and> map_of (peersRef s) p = Some pc \<longrightarrow>
         (\<forall>vs. getUserMedia b (length (mediaRequests s)) Video_hd = Inr vs \<longrightarrow>
            (\<exists>pc'. map_of (peersRef (snd (enableCamera b s))) p = Some pc'
               \<and> senders pc'
                   = senders (fold (attach_track b Log_only p Video) (getVideoTracks vs) pc)))
         \<and> (\<forall>st. getUserMedia b (length (mediaRequests s)) Audio_optimal = Inr st
                  \<and> length (getAudioTracks st) > 0 \<longrightarrow>
            (\<exists>pc'. map_of (peersRef (snd (enableMicrophone b s))) p = Some pc'
               \<and> senders pc'
                   = senders (fold (attach_track b AddTrack_instead p Audio) (getAudioTracks st)
                       (fold removeTrack_of
                          (case localStreamRef s of None \<Rightarrow> [] | Some ls \<Rightarrow> getAudioTracks ls)
                          pc))))
         \<and> (\<forall>s' ls. truthy (roomId s) \<and> retryPermissions b s = Returns s'
                  \<and> localStreamRef s' = Some ls \<longrightarrow>
            (\<exists>pc'. map_of (peersRef s') p = Some pc'
               \<and> senders pc'
                   = senders (fold (\<lambda>t. attach_track b Log_only p (kind t) t) ls
                       (fold removeTrack_of
                          (case localStreamRef s of None \<Rightarrow> [] | Some old \<Rightarrow> old) pc))))
         \<and> (\<exists>pc'. map_of (peersRef (attach_or_renegotiate b p t s)) p = Some pc'
               \<and> senders pc' = senders (attach_track b Log_only p (kind t) t pc))
         \<and> (find_sender_of_kind (kind t) pc \<noteq> None \<longrightarrow>
               sent (attach_or_renegotiate b p t s) = sent s))"
proof -
  have f: "distinct (map fst (peersRef s)) \<and> map_of (peersRef s) p = Some pc \<longrightarrow>
         (\<forall>vs. getUserMedia b (length (mediaRequests s)) Video_hd = Inr vs \<longrightarrow>
            (\<exists>pc'. map_of (peersRef (snd (enableCamera b s))) p = Some pc'
               \<and> senders pc'
                   = senders (fold (attach_track b Log_only p Video) (getVideoTracks vs) pc)))
         \<and> (\<forall>st. getUserMedia b (length (mediaRequests s)) Audio_optimal = Inr st
                  \<and> length (getAudioTracks st) > 0 \<longrightarrow>
            (\<exists>pc'. map_of (peersRef (snd (enableMicrophone b s))) p = Some pc'
               \<and> senders pc'
                   = senders (fold (attach_track b AddTrack_instead p Audio) (getAudioTracks st)
                       (fold removeTrack_of
                          (case localStreamRef s of None \<Rightarrow> [] | Some ls \<Rightarrow> getAudioTracks ls)
                          pc))))
         \<and> (\<forall>s' ls. truthy (roomId s) \<and> retryPermissions b s = Returns s'
                  \<and> localStreamRef s' = Some ls \<longrightarrow>
            (\<exists>pc'. map_of (peersRef s') p = Some pc'
               \<and> senders pc'
                   = senders (fold (\<lambda>t. attach_track b Log_only p (kind t) t) ls
                       (fold removeTrack_of
                          (case localStreamRef s of None \<Rightarrow> [] | Some old \<Rightarrow> old) pc))))
         \<and> (\<exists>pc'. map_of (peersRef (attach_or_renegotiate b p t s)) p = Some pc'
               \<and> senders pc' = senders (attach_track b Log_only p (kind t) t pc))
         \<and> (find_sender_of_kind (kind t) pc \<noteq> None \<longrightarrow>
               sent (attach_or_renegotiate b p t s) = sent s)"
    using enableCamera_attaches [of s p pc b] enableMicrophone_attaches [of s p pc b]
      retryPermissions_attaches [of s p pc b] attach_or_renegotiate_entry [of s p pc b t]
    by blast
  have a: "None \<notin> set (senders pc) \<longrightarrow>
         addTrack b p t pc = pc\<lparr>senders := senders pc @ [Some t]\<rparr>"
    using addTrack_appends by blast
  from attach_track_cases [of k pc i b p t rej] addTrack_cases [of pc b p t] a f
  show ?thesis by blast
qed

theorem attachment_prefers_replacement_witness:
  "attach_track example_browser Log_only ''2'' Audio mic2
       (new_RTCPeerConnection\<lparr>senders := [Some mic1]\<rparr>)
     = new_RTCPeerConnection\<lparr>senders := [Some mic2]\<rparr>
   \<and> attach_track example_browser Log_only ''2'' Video cam
       (new_RTCPeerConnection\<lparr>senders := [Some mic1]\<rparr>)
     = new_RTCPeerConnection\<lparr>senders := [Some mic1, Some cam]\<rparr>
   \<and> attach_track late_microphone_browser AddTrack_instead ''2'' Audio mic2
        (new_RTCPeerConnection\<lparr>senders := [Some mic1]\<rparr>)
     = new_RTCPeerConnection\<lparr>senders := [Some mic1, Some mic2]\<rparr>
   \<and> (\<exists>pc'. map_of (peersRef (snd (enableCamera camera_only_browser talking_client))) ''2'' = Some pc'
          \<and> senders pc' = [Some mic1, Some cam])
   \<and> (\<exists>s' pc'. retryPermissions granting_browser talking_client = Returns s'
          \<and> map_of (peersRef s') ''2'' = Some pc'
          \<and> senders pc' = [None, Some mic2, Some cam])
   \<and> (\<exists>pc'. map_of (peersRef (snd (enableMicrophone reusing_browser talking_client))) ''2''
            = Some pc'
          \<and> senders pc' = [Some mic2])
   \<and> sent (attach_or_renegotiate example_browser ''2'' mic2 talking_client) = sent talking_client"
proof -
  let ?pc = "new_RTCPeerConnection\<lparr>senders := [Some mic1]\<rparr>"
  have ok: "replaceTrack_ok example_browser ''2'' mic2"
    and rej: "\<not> replaceTrack_ok late_microphone_browser ''2'' mic2"
    by (simp_all add: late_microphone_browser_def example_browser_def)
  have nf: "None \<notin> set (senders ?pc)" by (simp add: talking_sender)
  have d: "distinct (map fst (peersRef talking_client))
      \<and> map_of (peersRef talking_client) ''2'' = Some ?pc"
    by (simp add: talking_facts)
  have v: "getUserMedia camera_only_browser (length (mediaRequests talking_client)) Video_hd
      = Inr [cam]"
    by (simp add: camera_only_browser_def example_browser_def)
  have k: "find_sender_of_kind (kind mic2) ?pc \<noteq> None" by (simp add: talking_sender)
  note A = attachment_prefers_replacement
    [of Audio ?pc 0 example_browser "''2''" mic2 Log_only talking_client]
  note E = attachment_prefers_replacement
    [of Video ?pc 0 example_browser "''2''" cam Log_only talking_client]
  note V = attachment_prefers_replacement
    [of Video ?pc 0 camera_only_browser "''2''" cam Log_only talking_client]
  note R = attachment_prefers_replacement
    [of Audio ?pc 0 late_microphone_browser "''2''" mic2 Log_only talking_client]
  note G = attachment_prefers_replacement
    [of Audio ?pc 0 granting_browser "''2''" mic2 Log_only talking_client]
  have 1: "attach_track example_browser Log_only ''2'' Audio mic2 ?pc
      = new_RTCPeerConnection\<lparr>senders := [Some mic2]\<rparr>"
    using A talking_sender(2) ok by (simp add: talking_sender(1))
  have 2: "attach_track example_browser Log_only ''2'' Video cam ?pc
      = new_RTCPeerConnection\<lparr>senders := [Some mic1, Some cam]\<rparr>"
    using E talking_sender(3) nf by (simp add: talking_sender(1))
  have 3: "attach_track late_microphone_browser AddTrack_instead ''2'' Audio mic2 ?pc
     = new_RTCPeerConnection\<lparr>senders := [Some mic1, Some mic2]\<rparr>"
    using R talking_sender(2) rej nf by (simp add: talking_sender(1))
  have c: "attach_track camera_only_browser Log_only ''2'' Video cam ?pc
      = new_RTCPeerConnection\<lparr>senders := [Some mic1, Some cam]\<rparr>"
    using V talking_sender(3) nf by (simp add: talking_sender(1))
  have 4: "\<exists>pc'. map_of (peersRef (snd (enableCamera camera_only_browser talking_client))) ''2'' = Some pc'
          \<and> senders pc' = [Some mic1, Some cam]"
  proof -
    from V d v obtain pc' where
      "map_of (peersRef (snd (enableCamera camera_only_browser talking_client))) ''2'' = Some pc'"
      "senders pc' = senders (fold (attach_track camera_only_browser Log_only ''2'' Video)
                                (getVideoTracks [cam]) ?pc)"
      by blast
    moreover have "getVideoTracks [cam] = [cam]" by (simp add: getVideoTracks_def)
    ultimately show ?thesis using c by (simp add: new_RTCPeerConnection_def)
  qed
  have 5: "sent (attach_or_renegotiate example_browser ''2'' mic2 talking_client) = sent talking_client"
    using A d k by simp
  have 6: "\<exists>s' pc'. retryPermissions granting_browser talking_client = Returns s'
          \<and> map_of (peersRef s') ''2'' = Some pc'
          \<and> senders pc' = [None, Some mic2, Some cam]"
  proof -
    have g: "getUserMedia granting_browser (length (mediaRequests talking_client)) Audio_processing
               = Inr [mic2]"
      "getUserMedia granting_browser (Suc (length (mediaRequests talking_client))) Video_hd
               = Inr [cam]"
      "\<not> reuses_sender granting_browser q j u" for q j u
      by (simp_all add: granting_browser_def example_browser_def)
    from retryPermissions_granted [OF g(1,2)] obtain s' where
      r: "retryPermissions granting_browser talking_client = Returns s'"
      and l: "localStreamRef s' = Some [mic2, cam]"
      by (auto simp: getVideoTracks_def getAudioTracks_def stream_addTrack_def)
    have tr: "truthy (roomId talking_client)" by (simp add: talking_facts truthy_def)
    from G d tr r l obtain pc' where
      m: "map_of (peersRef s') ''2'' = Some pc'"
      and sd: "senders pc' = senders (fold (\<lambda>t. attach_track granting_browser Log_only ''2'' (kind t) t)
                                [mic2, cam]
                                (fold removeTrack_of
                                   (case localStreamRef talking_client of None \<Rightarrow> []
                                    | Some old \<Rightarrow> old) ?pc))"
      by blast
    have "removeTrack_of mic1 ?pc = new_RTCPeerConnection\<lparr>senders := [None]\<rparr>"
      by (simp add: removeTrack_of_def new_RTCPeerConnection_def)
    moreover have "senders (fold (\<lambda>t. attach_track granting_browser Log_only ''2'' (kind t) t)
                              [mic2, cam] (new_RTCPeerConnection\<lparr>senders := [None]\<rparr>))
                   = [None, Some mic2, Some cam]"
      by (simp add: attach_track_def find_sender_of_kind_def addTrack_def g(3)
          new_RTCPeerConnection_def)
    ultimately have "senders pc' = [None, Some mic2, Some cam]"
      using sd by (simp add: talking_facts)
    with r m show ?thesis by blast
  qed
  have 7: "\<exists>pc'. map_of (peersRef (snd (enableMicrophone reusing_browser talking_client))) ''2''
            = Some pc'
          \<and> senders pc' = [Some mic2]"
  proof -
    have g: "getUserMedia reusing_browser (length (mediaRequests talking_client)) Audio_optimal
               = Inr [mic2]"
      "reuses_sender reusing_browser ''2'' 0 mic2"
      by (simp_all add: reusing_browser_def granting_browser_def example_browser_def)
    have a: "length (getAudioTracks [mic2]) > 0" by (simp add: getAudioTracks_def)
    from attachment_prefers_replacement
      [of Audio ?pc 0 reusing_browser "''2''" mic2 Log_only talking_client] d g(1) a
    obtain pc' where
      m: "map_of (peersRef (snd (enableMicrophone reusing_browser talking_client))) ''2'' = Some pc'"
      and sd: "senders pc'
         = senders (fold (attach_track reusing_browser AddTrack_instead ''2'' Audio)
                      (getAudioTracks [mic2])
                      (fold removeTrack_of
                         (case localStreamRef talking_client of None \<Rightarrow> []
                          | Some ls \<Rightarrow> getAudioTracks ls) ?pc))"
      by blast
    have "removeTrack_of mic1 ?pc = new_RTCPeerConnection\<lparr>senders := [None]\<rparr>"
      by (simp add: removeTrack_of_def new_RTCPeerConnection_def)
    moreover have "senders (attach_track reusing_browser AddTrack_instead ''2'' Audio mic2
                              (new_RTCPeerConnection\<lparr>senders := [None]\<rparr>)) = [Some mic2]"
      by (simp add: attach_track_def find_sender_of_kind_def addTrack_def g(2)
          new_RTCPeerConnection_def)
    ultimately have "senders pc' = [Some mic2]"
      using sd by (simp add: talking_facts getAudioTracks_def)
    with m show ?thesis by blast
  qed
  from 1 2 3 4 5 6 7 show ?thesis by blast
qed

end
